theory Spec2Isabelle
  imports Main "HOL-Library.Word"
begin

unbundle bit_operations_syntax

section \<open>Format constants\<close>

text \<open>
  \<^verbatim>\<open>pantryfs_sb.h\<close> fixes the block size and the block numbers. The two record
  sizes come from \<^verbatim>\<open>pantryfs_inode.h\<close> and \<^verbatim>\<open>pantryfs_file.h\<close>, which are
  not part of the sources at hand, so they are parameters of every operation.
\<close>

record layout =
  PFS_INODE_SIZE :: nat
  PFS_DENTRY_SIZE :: nat
  PANTRYFS_FILENAME_BUF_SIZE :: nat
  PANTRYFS_MAX_FILENAME_LENGTH :: nat

definition PFS_BLOCK_SIZE :: int where
  "PFS_BLOCK_SIZE = 4096"

definition PANTRYFS_MAGIC_NUMBER :: nat where
  "PANTRYFS_MAGIC_NUMBER = 16664"

definition PANTRYFS_ROOT_INODE_NUMBER :: nat where
  "PANTRYFS_ROOT_INODE_NUMBER = 1"

definition PANTRYFS_SUPERBLOCK_DATABLOCK_NUMBER :: nat where
  "PANTRYFS_SUPERBLOCK_DATABLOCK_NUMBER = 0"

definition PANTRYFS_INODE_STORE_DATABLOCK_NUMBER :: nat where
  "PANTRYFS_INODE_STORE_DATABLOCK_NUMBER = 1"

definition PFS_MAX_INODES :: "layout \<Rightarrow> nat" where
  "PFS_MAX_INODES L = 4096 div PFS_INODE_SIZE L"

definition PFS_MAX_CHILDREN :: "layout \<Rightarrow> nat" where
  "PFS_MAX_CHILDREN L = 4096 div PFS_DENTRY_SIZE L"

text \<open>Error numbers of the host, returned negated.\<close>

definition EIO :: int where "EIO = 5"
definition ENOMEM :: int where "ENOMEM = 12"
definition EFAULT :: int where "EFAULT = 14"
definition EINVAL :: int where "EINVAL = 22"
definition ENAMETOOLONG :: int where "ENAMETOOLONG = 36"

text \<open>File-type and permission bits of a mode.\<close>

definition S_IFDIR :: nat where "S_IFDIR = 16384"
definition S_IFREG :: nat where "S_IFREG = 32768"

section \<open>64-bit arithmetic\<close>

text \<open>
  \<^verbatim>\<open>size_t\<close> is unsigned and \<^verbatim>\<open>loff_t\<close>, \<^verbatim>\<open>ssize_t\<close> are signed, all of 64 bits.
  Values are integers; \<open>u64\<close> and \<open>s64\<close> are the conversions into the two types.
\<close>

definition u64 :: "int \<Rightarrow> int" where
  "u64 x = x mod 2 ^ 64"

definition s64 :: "int \<Rightarrow> int" where
  "s64 x = (if x mod 2 ^ 64 < 2 ^ 63 then x mod 2 ^ 64 else x mod 2 ^ 64 - 2 ^ 64)"

section \<open>On-disk structures\<close>

text \<open>
  The inode record and the directory entry as the code uses their fields. A
  timestamp is an abstract instant. The filename buffer is modelled by the
  characters before its first NUL.
\<close>

record pantryfs_inode =
  mode :: nat
  uid :: nat
  gid :: nat
  i_atime :: int
  i_mtime :: int
  i_ctime :: int
  nlink :: "32 word"
  data_block_number :: nat
  file_size :: int

record pantryfs_dir_entry =
  inode_no :: nat
  active :: nat
  filename :: string

record pantryfs_super_block =
  version :: nat
  magic :: nat
  free_inodes :: "32 word list"
  free_data_blocks :: "32 word list"

text \<open>What \<^verbatim>\<open>memset(p, 0, size)\<close> leaves in a record.\<close>

definition zero_inode :: pantryfs_inode where
  "zero_inode = \<lparr>mode = 0, uid = 0, gid = 0, i_atime = 0, i_mtime = 0, i_ctime = 0,
     nlink = 0, data_block_number = 0, file_size = 0\<rparr>"

definition zero_dentry :: pantryfs_dir_entry where
  "zero_dentry = \<lparr>inode_no = 0, active = 0, filename = []\<rparr>"

section \<open>The block store\<close>

text \<open>
  A block holds one of the four structures the code casts block data to. The
  store maps a block number to its block; \<open>None\<close> is a block that
  \<^verbatim>\<open>sb_bread\<close> cannot read (it returns \<^verbatim>\<open>NULL\<close>). The store stands for the host's
  buffers: a write to block data is visible to the next \<^verbatim>\<open>sb_bread\<close> of that
  block, whether or not the buffer has been synced.
\<close>

datatype block =
    SuperBlk pantryfs_super_block
  | IStoreBlk "pantryfs_inode list"
  | DirBlk "pantryfs_dir_entry list"
  | DataBlk "8 word list"

type_synonym disk = "nat \<Rightarrow> block option"

text \<open>
  Reading a block under one of the four casts. \<open>Null\<close>: the read failed.
  \<open>Foreign\<close>: the block holds another structure, or an array of another
  length, than the cast expects; what the C code then reads depends on the byte
  layout and is outside this model. \<open>Buf\<close>: the structure read.
\<close>

datatype 'a bread = Null | Foreign | Buf 'a

definition bitvec_len :: "layout \<Rightarrow> nat" where
  "bitvec_len L = PFS_MAX_INODES L div 32 + 1"

definition bread_sb :: "layout \<Rightarrow> disk \<Rightarrow> pantryfs_super_block bread" where
  "bread_sb L d =
     (case d PANTRYFS_SUPERBLOCK_DATABLOCK_NUMBER of
        None \<Rightarrow> Null
      | Some (SuperBlk s) \<Rightarrow>
          if length (free_inodes s) = bitvec_len L \<and> length (free_data_blocks s) = bitvec_len L
          then Buf s else Foreign
      | Some _ \<Rightarrow> Foreign)"

definition bread_istore :: "layout \<Rightarrow> disk \<Rightarrow> pantryfs_inode list bread" where
  "bread_istore L d =
     (case d PANTRYFS_INODE_STORE_DATABLOCK_NUMBER of
        None \<Rightarrow> Null
      | Some (IStoreBlk t) \<Rightarrow> if length t = PFS_MAX_INODES L then Buf t else Foreign
      | Some _ \<Rightarrow> Foreign)"

definition bread_dir :: "layout \<Rightarrow> disk \<Rightarrow> nat \<Rightarrow> pantryfs_dir_entry list bread" where
  "bread_dir L d n =
     (case d n of
        None \<Rightarrow> Null
      | Some (DirBlk es) \<Rightarrow> if length es = PFS_MAX_CHILDREN L then Buf es else Foreign
      | Some _ \<Rightarrow> Foreign)"

definition bread_data :: "disk \<Rightarrow> nat \<Rightarrow> 8 word list bread" where
  "bread_data d n =
     (case d n of
        None \<Rightarrow> Null
      | Some (DataBlk bs) \<Rightarrow> if length bs = 4096 then Buf bs else Foreign
      | Some _ \<Rightarrow> Foreign)"

section \<open>The host's in-memory inode\<close>

text \<open>
  The fields of \<^verbatim>\<open>struct inode\<close> the code reads or writes. The three
  timestamps are named \<open>v_atime\<close>, \<open>v_mtime\<close>, \<open>v_ctime\<close> here, since the on-disk
  record has fields of the same names. \<open>i_new\<close> is the \<^verbatim>\<open>I_NEW\<close> bit of
  \<^verbatim>\<open>i_state\<close>; \<open>i_dirty\<close> is what \<^verbatim>\<open>mark_inode_dirty\<close> sets.
\<close>

datatype fops = no_fops | pantryfs_dir_ops | pantryfs_file_ops

record inode =
  i_ino :: nat
  i_mode :: nat
  i_nlink :: "32 word"
  i_uid :: nat
  i_gid :: nat
  v_atime :: int
  v_mtime :: int
  v_ctime :: int
  i_size :: int
  i_blocks :: nat
  i_fop :: fops
  i_new :: bool
  i_dirty :: bool

section \<open>Helpers of the inode store\<close>

text \<open>
  \<^verbatim>\<open>PFS_inode_from_istore\<close> returns the address of slot \<open>ino - 1\<close> of the inode
  store. The address lies inside the block only for \<open>1 \<le> ino \<le> PFS_MAX_INODES\<close>;
  for any other number the code reads or writes outside the buffer, which is
  undefined behaviour: \<open>None\<close>.
\<close>

definition PFS_inode_from_istore :: "layout \<Rightarrow> nat \<Rightarrow> nat option" where
  "PFS_inode_from_istore L ino =
     (if 1 \<le> ino \<and> ino \<le> PFS_MAX_INODES L then Some (ino - 1) else None)"

definition PFS_datablock_no_from_inode :: "layout \<Rightarrow> pantryfs_inode list \<Rightarrow> inode \<Rightarrow> nat option" where
  "PFS_datablock_no_from_inode L istore ino =
     (case PFS_inode_from_istore L (i_ino ino) of
        None \<Rightarrow> None
      | Some k \<Rightarrow> Some (data_block_number (istore ! k)))"

section \<open>read\<close>

text \<open>
  \<^verbatim>\<open>pantryfs_read(filp, buf, len, ppos)\<close>. The user buffer is modelled by the
  number \<open>ucap\<close> of bytes the host can store at \<^verbatim>\<open>buf\<close>: \<^verbatim>\<open>copy_to_user\<close> of
  more bytes fails. The result is the return value, the new \<^verbatim>\<open>*ppos\<close> and the
  bytes delivered. \<open>None\<close> is undefined behaviour or a foreign block: a copy
  from a negative offset, or of a count that passes the end of the block, reads
  outside the block data. The sum \<^verbatim>\<open>len + *ppos\<close> is computed in \<^verbatim>\<open>size_t\<close>.
\<close>

definition read_amount :: "nat \<Rightarrow> int \<Rightarrow> int" where
  "read_amount len ppos =
     (if u64 (u64 (int len) + ppos) > PFS_BLOCK_SIZE then u64 (PFS_BLOCK_SIZE - ppos)
      else u64 (int len))"

definition pantryfs_read ::
  "layout \<Rightarrow> disk \<Rightarrow> inode \<Rightarrow> nat \<Rightarrow> nat \<Rightarrow> int \<Rightarrow> (int \<times> int \<times> 8 word list) option" where
  "pantryfs_read L d ino ucap len ppos =
     (if ppos = PFS_BLOCK_SIZE then Some (0, ppos, [])
      else if ppos > PFS_BLOCK_SIZE then Some (- EINVAL, ppos, [])
      else
        (case bread_istore L d of
           Null \<Rightarrow> Some (- EIO, ppos, [])
         | Foreign \<Rightarrow> None
         | Buf istore \<Rightarrow>
             (case PFS_datablock_no_from_inode L istore ino of
                None \<Rightarrow> None
              | Some dbn \<Rightarrow>
                  (case bread_data d dbn of
                     Null \<Rightarrow> Some (- EIO, ppos, [])
                   | Foreign \<Rightarrow> None
                   | Buf bytes \<Rightarrow>
                       (let amt_to_read = read_amount len ppos in
                        if ppos < 0 then None
                        else if amt_to_read > int ucap then Some (- EFAULT, ppos, [])
                        else if ppos + amt_to_read > PFS_BLOCK_SIZE then None
                        else Some (s64 amt_to_read, s64 (ppos + amt_to_read),
                                   take (nat amt_to_read) (drop (nat ppos) bytes)))))))"

section \<open>The bitmap macros and the scanning loops\<close>

text \<open>
  \<^verbatim>\<open>SETBIT\<close>, \<^verbatim>\<open>CLEARBIT\<close> and \<^verbatim>\<open>IS_SET\<close> of \<^verbatim>\<open>pantryfs_sb.h\<close>, on an array of
  32-bit words. The arrays of a superblock have \<open>PFS_MAX_INODES div 32 + 1\<close>
  words, so word \<open>k div 32\<close> exists for every \<open>k\<close> below \<open>PFS_MAX_INODES\<close>; an
  operation that uses any other \<open>k\<close> tests the bound first.
\<close>

definition IS_SET :: "32 word list \<Rightarrow> nat \<Rightarrow> bool" where
  "IS_SET A k = (A ! (k div 32) AND push_bit (k mod 32) 1 \<noteq> 0)"

definition SETBIT :: "32 word list \<Rightarrow> nat \<Rightarrow> 32 word list" where
  "SETBIT A k = A[k div 32 := A ! (k div 32) OR push_bit (k mod 32) 1]"

definition CLEARBIT :: "32 word list \<Rightarrow> nat \<Rightarrow> 32 word list" where
  "CLEARBIT A k = A[k div 32 := A ! (k div 32) AND NOT (push_bit (k mod 32) 1)]"

text \<open>
  The loops \<^verbatim>\<open>for (i = 0; i < n; i++) if (P(i)) break;\<close> of create, unlink
  and lookup: the first index from \<open>i\<close> on that satisfies \<open>P\<close>, or \<open>n\<close>.
\<close>

function scan :: "(nat \<Rightarrow> bool) \<Rightarrow> nat \<Rightarrow> nat \<Rightarrow> nat" where
  "scan P n i = (if i < n then (if P i then i else scan P n (Suc i)) else i)"
  by pat_completeness auto
termination
  by (relation "measure (\<lambda>(P, n, i). n - i)") auto

declare scan.simps [simp del]

section \<open>create\<close>

text \<open>
  \<^verbatim>\<open>pantryfs_create(parent, dentry, mode, excl)\<close>; \<open>name\<close> is
  \<^verbatim>\<open>dentry->d_name.name\<close> and \<open>now\<close> is \<^verbatim>\<open>current_time(parent)\<close>. The result is
  the return value and the store. \<^verbatim>\<open>strncpy\<close> into the filename buffer keeps
  the first \<^verbatim>\<open>sizeof(filename)\<close> characters of the name. \<open>mode_arg\<close> is the
  \<^verbatim>\<open>mode\<close> parameter, which the body never reads. The three parts are the
  superblock step (\<open>pantryfs_create\<close>), the inode-store step (\<open>create_inode\<close>)
  and the directory step (\<open>create_dentry\<close>); the two exits taken when a scan
  finds nothing leave \<^verbatim>\<open>ret\<close> at 0.
\<close>

definition new_inode_record :: "pantryfs_inode \<Rightarrow> inode \<Rightarrow> nat \<Rightarrow> int \<Rightarrow> pantryfs_inode" where
  "new_inode_record r parent new_db_no now =
     r\<lparr>nlink := 1, mode := S_IFREG OR 438, data_block_number := new_db_no, file_size := 0,
       uid := i_uid parent, gid := i_gid parent,
       i_atime := now, i_mtime := now, i_ctime := now\<rparr>"

definition create_dentry ::
  "layout \<Rightarrow> disk \<Rightarrow> nat \<Rightarrow> pantryfs_dir_entry list \<Rightarrow> nat \<Rightarrow> string \<Rightarrow> int \<times> disk" where
  "create_dentry L d pdb es new_ino_no name =
     (let new_dentry_no = scan (\<lambda>i. active (es ! i) = 0) (PFS_MAX_CHILDREN L) 0 in
      if new_dentry_no = PFS_MAX_CHILDREN L then (0, d)
      else (0, d(pdb \<mapsto> DirBlk (es[new_dentry_no := (es ! new_dentry_no)
                 \<lparr>inode_no := new_ino_no, active := 1,
                  filename := take (PANTRYFS_FILENAME_BUF_SIZE L) name\<rparr>]))))"

definition create_inode ::
  "layout \<Rightarrow> disk \<Rightarrow> inode \<Rightarrow> string \<Rightarrow> int \<Rightarrow> nat \<Rightarrow> nat \<Rightarrow> (int \<times> disk) option" where
  "create_inode L d parent name now new_ino_no new_db_no =
     (case bread_istore L d of
        Null \<Rightarrow> Some (- EIO, d)
      | Foreign \<Rightarrow> None
      | Buf istore \<Rightarrow>
          (case PFS_inode_from_istore L new_ino_no of
             None \<Rightarrow> None
           | Some k \<Rightarrow>
               (let istore' = istore[k := new_inode_record (istore ! k) parent new_db_no now];
                    d' = d(PANTRYFS_INODE_STORE_DATABLOCK_NUMBER \<mapsto> IStoreBlk istore')
                in case PFS_datablock_no_from_inode L istore' parent of
                     None \<Rightarrow> None
                   | Some pdb \<Rightarrow>
                       (case bread_dir L d' pdb of
                          Null \<Rightarrow> Some (- EIO, d')
                        | Foreign \<Rightarrow> None
                        | Buf es \<Rightarrow> Some (create_dentry L d' pdb es new_ino_no name)))))"

definition pantryfs_create ::
  "layout \<Rightarrow> disk \<Rightarrow> inode \<Rightarrow> string \<Rightarrow> nat \<Rightarrow> int \<Rightarrow> (int \<times> disk) option" where
  "pantryfs_create L d parent name mode_arg now =
     (case bread_sb L d of
        Null \<Rightarrow> Some (- EIO, d)
      | Foreign \<Rightarrow> None
      | Buf pantry_sb \<Rightarrow>
          (let new_ino_no = scan (\<lambda>k. \<not> IS_SET (free_inodes pantry_sb) k) (PFS_MAX_INODES L) 0;
               new_db_no = scan (\<lambda>k. \<not> IS_SET (free_data_blocks pantry_sb) k) (PFS_MAX_INODES L) 0
           in if new_ino_no = PFS_MAX_INODES L \<or> new_db_no = PFS_MAX_INODES L then Some (0, d)
              else create_inode L
                     (d(PANTRYFS_SUPERBLOCK_DATABLOCK_NUMBER \<mapsto> SuperBlk (pantry_sb
                         \<lparr>free_inodes := SETBIT (free_inodes pantry_sb) new_ino_no,
                          free_data_blocks := SETBIT (free_data_blocks pantry_sb) new_db_no\<rparr>)))
                     parent name now new_ino_no new_db_no))"

section \<open>Reclamation, unlink and evict\<close>

text \<open>
  \<^verbatim>\<open>PFS_remove_inode(sb_bh, istore_bh, inode)\<close>, on the superblock and the inode
  store of the two buffers. Both \<^verbatim>\<open>CLEARBIT\<close> calls name \<^verbatim>\<open>free_inodes\<close>.
\<close>

definition PFS_remove_inode ::
  "layout \<Rightarrow> pantryfs_super_block \<Rightarrow> pantryfs_inode list \<Rightarrow> inode
     \<Rightarrow> (pantryfs_super_block \<times> pantryfs_inode list) option" where
  "PFS_remove_inode L pantry_sb istore ino =
     (case PFS_datablock_no_from_inode L istore ino of
        None \<Rightarrow> None
      | Some db_no \<Rightarrow>
          if length (free_inodes pantry_sb) \<le> i_ino ino div 32 then None
          else if length (free_inodes pantry_sb) \<le> db_no div 32 then None
          else
            (case PFS_inode_from_istore L (i_ino ino) of
               None \<Rightarrow> None
             | Some k \<Rightarrow>
                 Some (pantry_sb\<lparr>free_inodes :=
                         CLEARBIT (CLEARBIT (free_inodes pantry_sb) (i_ino ino)) db_no\<rparr>,
                       istore[k := zero_inode])))"

text \<open>
  \<^verbatim>\<open>pantryfs_unlink(dir, dentry)\<close>; \<open>name\<close> is \<^verbatim>\<open>dentry->d_name.name\<close> and
  \<open>dentry_inode\<close> is \<^verbatim>\<open>dentry->d_inode\<close>. The result is the return value, the
  store and the in-memory inode.

  The statement \<^verbatim>\<open>dentry_pfs_inode->nlink--\<close> writes through
  \<^verbatim>\<open>PFS_inode_from_istore(dir_bh, ...)\<close>: into the directory block, at the offset
  an inode record of that number would have. Which bytes of which directory
  entry that changes depends on the two record layouts, so the effect on the
  entries is the parameter \<open>dir_nlink_dec\<close> (slot index, entries).
\<close>

definition drop_nlink :: "inode \<Rightarrow> inode" where
  "drop_nlink ino = ino\<lparr>i_nlink := i_nlink ino - 1\<rparr>"

definition mark_inode_dirty :: "inode \<Rightarrow> inode" where
  "mark_inode_dirty ino = ino\<lparr>i_dirty := True\<rparr>"

definition unlink_reclaim ::
  "layout \<Rightarrow> disk \<Rightarrow> pantryfs_inode list \<Rightarrow> inode \<Rightarrow> (int \<times> disk \<times> inode) option" where
  "unlink_reclaim L d istore dentry_inode =
     (if i_nlink dentry_inode \<noteq> 0 then Some (0, d, dentry_inode)
      else
        (case bread_sb L d of
           Null \<Rightarrow> Some (- EIO, d, dentry_inode)
         | Foreign \<Rightarrow> None
         | Buf pantry_sb \<Rightarrow>
             (case PFS_remove_inode L pantry_sb istore dentry_inode of
                None \<Rightarrow> None
              | Some (sb', istore') \<Rightarrow>
                  Some (0, d(PANTRYFS_SUPERBLOCK_DATABLOCK_NUMBER \<mapsto> SuperBlk sb',
                             PANTRYFS_INODE_STORE_DATABLOCK_NUMBER \<mapsto> IStoreBlk istore'),
                        dentry_inode))))"

definition pantryfs_unlink ::
  "layout \<Rightarrow> (nat \<Rightarrow> pantryfs_dir_entry list \<Rightarrow> pantryfs_dir_entry list) \<Rightarrow> disk \<Rightarrow> inode
     \<Rightarrow> string \<Rightarrow> inode \<Rightarrow> (int \<times> disk \<times> inode) option" where
  "pantryfs_unlink L dir_nlink_dec d dir name dentry_inode =
     (case bread_istore L d of
        Null \<Rightarrow> Some (- EIO, d, dentry_inode)
      | Foreign \<Rightarrow> None
      | Buf istore \<Rightarrow>
          (case PFS_datablock_no_from_inode L istore dir of
             None \<Rightarrow> None
           | Some pdb \<Rightarrow>
               (case bread_dir L d pdb of
                  Null \<Rightarrow> Some (- EIO, d, dentry_inode)
                | Foreign \<Rightarrow> None
                | Buf es \<Rightarrow>
                    (let i = scan (\<lambda>i. filename (es ! i) = name) (PFS_MAX_CHILDREN L) 0 in
                     if i = PFS_MAX_CHILDREN L then Some (- EFAULT, d, dentry_inode)
                     else
                       (case PFS_inode_from_istore L (i_ino dentry_inode) of
                          None \<Rightarrow> None
                        | Some k \<Rightarrow>
                            unlink_reclaim L
                              (d(pdb \<mapsto> DirBlk (dir_nlink_dec k (es[i := zero_dentry]))))
                              istore
                              (mark_inode_dirty (drop_nlink dentry_inode)))))))"

text \<open>\<^verbatim>\<open>pantryfs_evict_inode(inode)\<close>: the store afterwards.\<close>

definition pantryfs_evict_inode :: "layout \<Rightarrow> disk \<Rightarrow> inode \<Rightarrow> disk option" where
  "pantryfs_evict_inode L d ino =
     (case bread_istore L d of
        Null \<Rightarrow> Some d
      | Foreign \<Rightarrow> None
      | Buf istore \<Rightarrow>
          (case bread_sb L d of
             Null \<Rightarrow> Some d
           | Foreign \<Rightarrow> None
           | Buf pantry_sb \<Rightarrow>
               (case PFS_remove_inode L pantry_sb istore ino of
                  None \<Rightarrow> None
                | Some (sb', istore') \<Rightarrow>
                    Some (d(PANTRYFS_SUPERBLOCK_DATABLOCK_NUMBER \<mapsto> SuperBlk sb',
                            PANTRYFS_INODE_STORE_DATABLOCK_NUMBER \<mapsto> IStoreBlk istore')))))"

section \<open>write and write-back\<close>

text \<open>
  \<^verbatim>\<open>pantryfs_write(filp, buf, len, ppos)\<close>; \<open>isappend\<close> is
  \<^verbatim>\<open>filp->f_flags & O_APPEND\<close> and \<open>ubuf\<close> holds the bytes the host can read at
  \<^verbatim>\<open>buf\<close>: \<^verbatim>\<open>copy_from_user\<close> of more bytes fails, and a failed copy is taken
  to leave the block as it was. The result is the return value, the new
  \<^verbatim>\<open>*ppos\<close>, the in-memory inode and the store.
\<close>

definition write_amount :: "nat \<Rightarrow> int \<Rightarrow> int" where
  "write_amount len ppos =
     (if u64 (u64 (int len) + ppos) > PFS_BLOCK_SIZE then u64 (PFS_BLOCK_SIZE - ppos)
      else u64 (int len))"

definition i_size_write :: "inode \<Rightarrow> int \<Rightarrow> inode" where
  "i_size_write ino n = ino\<lparr>i_size := n\<rparr>"

definition write_block ::
  "disk \<Rightarrow> inode \<Rightarrow> nat \<Rightarrow> 8 word list \<Rightarrow> 8 word list \<Rightarrow> nat \<Rightarrow> int
     \<Rightarrow> (int \<times> int \<times> inode \<times> disk) option" where
  "write_block d ino dbn bytes ubuf len ppos =
     (let amt_to_write = write_amount len ppos in
      if ppos < 0 then None
      else if amt_to_write > int (length ubuf) then Some (- EFAULT, ppos, ino, d)
      else if ppos + amt_to_write > PFS_BLOCK_SIZE then None
      else
        (let d' = d(dbn \<mapsto> DataBlk (take (nat ppos) bytes @ take (nat amt_to_write) ubuf
                                      @ drop (nat (ppos + amt_to_write)) bytes));
             ppos' = s64 (ppos + amt_to_write)
         in Some (s64 amt_to_write, ppos',
                  (if ppos' > i_size ino then mark_inode_dirty (i_size_write ino ppos') else ino),
                  d')))"

definition pantryfs_write ::
  "layout \<Rightarrow> disk \<Rightarrow> inode \<Rightarrow> bool \<Rightarrow> 8 word list \<Rightarrow> nat \<Rightarrow> int
     \<Rightarrow> (int \<times> int \<times> inode \<times> disk) option" where
  "pantryfs_write L d ino isappend ubuf len ppos =
     (if ppos > i_size ino then Some (- EINVAL, ppos, ino, d)
      else
        (let ppos1 = (if isappend then i_size ino else ppos) in
         case bread_istore L d of
           Null \<Rightarrow> Some (- EIO, ppos1, ino, d)
         | Foreign \<Rightarrow> None
         | Buf istore \<Rightarrow>
             (case PFS_datablock_no_from_inode L istore ino of
                None \<Rightarrow> None
              | Some dbn \<Rightarrow>
                  (case bread_data d dbn of
                     Null \<Rightarrow> Some (- EIO, ppos1, ino, d)
                   | Foreign \<Rightarrow> None
                   | Buf bytes \<Rightarrow> write_block d ino dbn bytes ubuf len ppos1))))"

text \<open>\<^verbatim>\<open>pantryfs_write_inode(inode, wbc)\<close>: the return value and the store.\<close>

definition pantryfs_write_inode :: "layout \<Rightarrow> disk \<Rightarrow> inode \<Rightarrow> (int \<times> disk) option" where
  "pantryfs_write_inode L d ino =
     (case bread_istore L d of
        Null \<Rightarrow> Some (- EIO, d)
      | Foreign \<Rightarrow> None
      | Buf istore \<Rightarrow>
          (case PFS_inode_from_istore L (i_ino ino) of
             None \<Rightarrow> None
           | Some k \<Rightarrow>
               Some (0, d(PANTRYFS_INODE_STORE_DATABLOCK_NUMBER \<mapsto> IStoreBlk (istore[k :=
                 (istore ! k)\<lparr>mode := i_mode ino, uid := i_uid ino, gid := i_gid ino,
                   nlink := i_nlink ino, i_atime := v_atime ino, i_mtime := v_mtime ino,
                   i_ctime := v_ctime ino, file_size := i_size ino\<rparr>])))))"

section \<open>Directory iteration\<close>

text \<open>
  The host's \<^verbatim>\<open>struct dir_context\<close>: the position cursor and the caller's
  callback. The callback is modelled by the number \<open>room\<close> of entries the
  caller still accepts and the list \<open>emitted\<close> of entries it has received;
  \<^verbatim>\<open>dir_emit\<close> returns false once the room is used up. \<^verbatim>\<open>dir_emit_dots\<close> follows
  the host: it emits \<^verbatim>\<open>.\<close> at position 0 and \<^verbatim>\<open>..\<close> at position 1 (the root
  directory is its own parent).
\<close>

record dir_context =
  ctx_pos :: int
  room :: nat
  emitted :: "(string \<times> nat) list"

definition dir_emit :: "dir_context \<Rightarrow> string \<Rightarrow> nat \<Rightarrow> bool \<times> dir_context" where
  "dir_emit ctx name ino =
     (if room ctx = 0 then (False, ctx)
      else (True, ctx\<lparr>room := room ctx - 1, emitted := emitted ctx @ [(name, ino)]\<rparr>))"

definition dir_emit_dot :: "inode \<Rightarrow> dir_context \<Rightarrow> bool \<times> dir_context" where
  "dir_emit_dot dir ctx =
     (if ctx_pos ctx = 0 then
        (case dir_emit ctx ''.'' (i_ino dir) of
           (False, c) \<Rightarrow> (False, c)
         | (True, c) \<Rightarrow> (True, c\<lparr>ctx_pos := 1\<rparr>))
      else (True, ctx))"

definition dir_emit_dotdot :: "inode \<Rightarrow> dir_context \<Rightarrow> bool \<times> dir_context" where
  "dir_emit_dotdot dir ctx =
     (if ctx_pos ctx = 1 then
        (case dir_emit ctx ''..'' (i_ino dir) of
           (False, c) \<Rightarrow> (False, c)
         | (True, c) \<Rightarrow> (True, c\<lparr>ctx_pos := 2\<rparr>))
      else (True, ctx))"

definition dir_emit_dots :: "inode \<Rightarrow> dir_context \<Rightarrow> bool \<times> dir_context" where
  "dir_emit_dots dir ctx =
     (case dir_emit_dot dir ctx of
        (False, c) \<Rightarrow> (False, c)
      | (True, c) \<Rightarrow> dir_emit_dotdot dir c)"

text \<open>
  The loop over the directory block, from slot \<open>i\<close>: an inactive slot is
  skipped, a declined entry leaves the loop, an accepted one advances the
  position.
\<close>

function iterate_loop :: "pantryfs_dir_entry list \<Rightarrow> nat \<Rightarrow> nat \<Rightarrow> dir_context \<Rightarrow> dir_context" where
  "iterate_loop es n i ctx =
     (if i < n then
        (if active (es ! i) = 0 then iterate_loop es n (Suc i) ctx
         else
           (case dir_emit ctx (filename (es ! i)) (inode_no (es ! i)) of
              (False, c) \<Rightarrow> c
            | (True, c) \<Rightarrow> iterate_loop es n (Suc i) (c\<lparr>ctx_pos := ctx_pos c + 1\<rparr>)))
      else ctx)"
  by pat_completeness auto
termination
  by (relation "measure (\<lambda>(es, n, i, ctx). n - i)") auto

declare iterate_loop.simps [simp del]

text \<open>\<^verbatim>\<open>pantryfs_iterate(filp, ctx)\<close>: the return value and the context.\<close>

definition pantryfs_iterate ::
  "layout \<Rightarrow> disk \<Rightarrow> inode \<Rightarrow> dir_context \<Rightarrow> (int \<times> dir_context) option" where
  "pantryfs_iterate L d dir ctx =
     (if ctx_pos ctx > int (PFS_MAX_CHILDREN L) + 2 then Some (0, ctx)
      else
        (case dir_emit_dots dir ctx of
           (False, c) \<Rightarrow> Some (0, c)
         | (True, c) \<Rightarrow>
             (case bread_istore L d of
                Null \<Rightarrow> Some (- EIO, c)
              | Foreign \<Rightarrow> None
              | Buf istore \<Rightarrow>
                  (case PFS_datablock_no_from_inode L istore dir of
                     None \<Rightarrow> None
                   | Some pdb \<Rightarrow>
                       (case bread_dir L d pdb of
                          Null \<Rightarrow> Some (- EIO, c)
                        | Foreign \<Rightarrow> None
                        | Buf es \<Rightarrow>
                            Some (0, (iterate_loop es (PFS_MAX_CHILDREN L) 0 c)
                                       \<lparr>ctx_pos := int (PFS_MAX_CHILDREN L) + 3\<rparr>))))))"

section \<open>The host's inode cache, lookup and mount\<close>

text \<open>
  The cache is the list of the in-memory inodes of this superblock; an inode is
  named by its index, which stands for its address. \<^verbatim>\<open>iget_locked(sb, ino)\<close> is
  a function of the host kernel, not of the sources at hand; the definitions
  below follow the host's implementation (\<^verbatim>\<open>fs/inode.c\<close>). It searches the
  cached inodes of the superblock for one whose \<^verbatim>\<open>i_ino\<close> field equals \<open>ino\<close>:
  the host's \<^verbatim>\<open>find_inode_fast\<close> walks the hash chain of the key and skips every
  inode with \<^verbatim>\<open>inode->i_ino != ino\<close>. When there is none it allocates an inode,
  sets \<^verbatim>\<open>i_ino = ino\<close> and \<^verbatim>\<open>I_NEW\<close>, and adds it to the cache. All inodes of
  this file system are requested under the same key, so they share one chain
  and the list is searched as a whole. \<open>oom\<close>: the allocation fails and
  \<^verbatim>\<open>iget_locked\<close> returns \<^verbatim>\<open>NULL\<close>.
\<close>

definition find_inode_fast :: "inode list \<Rightarrow> nat \<Rightarrow> nat option" where
  "find_inode_fast c ino =
     (let a = scan (\<lambda>a. i_ino (c ! a) = ino) (length c) 0
      in if a = length c then None else Some a)"

definition alloc_inode :: "nat \<Rightarrow> inode" where
  "alloc_inode ino = \<lparr>i_ino = ino, i_mode = 0, i_nlink = 1, i_uid = 0, i_gid = 0,
     v_atime = 0, v_mtime = 0, v_ctime = 0, i_size = 0, i_blocks = 0, i_fop = no_fops,
     i_new = True, i_dirty = False\<rparr>"

definition iget_locked :: "bool \<Rightarrow> inode list \<Rightarrow> nat \<Rightarrow> (nat \<times> inode list) option" where
  "iget_locked oom c ino =
     (case find_inode_fast c ino of
        Some a \<Rightarrow> Some (a, c)
      | None \<Rightarrow> if oom then None else Some (length c, c @ [alloc_inode ino]))"

text \<open>
  \<^verbatim>\<open>pfs_inode(sb, ino, pfs_inode)\<close>. \<open>fill_inode\<close> is the part after the
  \<^verbatim>\<open>I_NEW\<close> test, which sets the fields of the new inode and unlocks it. The
  record pointer is \<open>None\<close> when it points outside the inode store; it is
  dereferenced only for a new inode. The result is the inode's address
  (\<open>None\<close> for \<^verbatim>\<open>NULL\<close>) and the cache.
\<close>

definition fill_inode :: "inode \<Rightarrow> nat \<Rightarrow> pantryfs_inode \<Rightarrow> inode" where
  "fill_inode ino n r =
     ino\<lparr>i_blocks := 1,
         i_ino := n,
         i_mode := (if n = PANTRYFS_ROOT_INODE_NUMBER then 511 OR S_IFDIR else mode r),
         i_nlink := nlink r, i_uid := uid r, i_gid := gid r,
         v_atime := i_atime r, v_mtime := i_mtime r, v_ctime := i_ctime r,
         i_fop := (if mode r AND S_IFDIR = 0 \<and> n \<noteq> PANTRYFS_ROOT_INODE_NUMBER
                   then pantryfs_file_ops else pantryfs_dir_ops),
         i_size := (if mode r AND S_IFDIR = 0 \<and> n \<noteq> PANTRYFS_ROOT_INODE_NUMBER
                    then file_size r else PFS_BLOCK_SIZE),
         i_new := False\<rparr>"

definition pfs_inode ::
  "bool \<Rightarrow> inode list \<Rightarrow> nat \<Rightarrow> pantryfs_inode option \<Rightarrow> (nat option \<times> inode list) option" where
  "pfs_inode oom c ino pfs_inode_ptr =
     (case iget_locked oom c 0 of
        None \<Rightarrow> Some (None, c)
      | Some (a, c1) \<Rightarrow>
          if i_new (c1 ! a) then
            (case pfs_inode_ptr of
               None \<Rightarrow> None
             | Some r \<Rightarrow> Some (Some a, c1[a := fill_inode (c1 ! a) ino r]))
          else Some (Some a, c1))"

text \<open>
  \<^verbatim>\<open>pantryfs_lookup(parent, child_dentry, flags)\<close>; \<open>name\<close> is
  \<^verbatim>\<open>child_dentry->d_name\<close>. The result tells what the caller gets: an error
  pointer, \<^verbatim>\<open>NULL\<close> with the dentry left unbound, or \<^verbatim>\<open>NULL\<close> after
  \<^verbatim>\<open>d_add(child_dentry, inode)\<close>.
\<close>

datatype lookup_result = ERR_PTR int | Unbound | D_add nat

definition pantryfs_lookup ::
  "layout \<Rightarrow> bool \<Rightarrow> disk \<Rightarrow> inode list \<Rightarrow> inode \<Rightarrow> string
     \<Rightarrow> (lookup_result \<times> inode list) option" where
  "pantryfs_lookup L oom d c parent name =
     (if length name > PANTRYFS_MAX_FILENAME_LENGTH L then Some (ERR_PTR (- ENAMETOOLONG), c)
      else
        (case bread_istore L d of
           Null \<Rightarrow> Some (ERR_PTR (- EIO), c)
         | Foreign \<Rightarrow> None
         | Buf istore \<Rightarrow>
             (case PFS_datablock_no_from_inode L istore parent of
                None \<Rightarrow> None
              | Some pdb \<Rightarrow>
                  (case bread_dir L d pdb of
                     Null \<Rightarrow> Some (ERR_PTR (- EIO), c)
                   | Foreign \<Rightarrow> None
                   | Buf es \<Rightarrow>
                       (let i = scan (\<lambda>i. active (es ! i) \<noteq> 0
                                  \<and> take (PANTRYFS_FILENAME_BUF_SIZE L) (filename (es ! i))
                                      = take (PANTRYFS_FILENAME_BUF_SIZE L) name)
                                  (PFS_MAX_CHILDREN L) 0
                        in if i = PFS_MAX_CHILDREN L then Some (Unbound, c)
                           else
                             (case pfs_inode oom c (inode_no (es ! i))
                                     (map_option ((!) istore)
                                        (PFS_inode_from_istore L (inode_no (es ! i)))) of
                                None \<Rightarrow> None
                              | Some (None, c') \<Rightarrow> Some (ERR_PTR (- ENOMEM), c')
                              | Some (Some a, c') \<Rightarrow> Some (D_add a, c')))))))"

text \<open>
  \<^verbatim>\<open>pantryfs_fill_super(sb, data, silent)\<close>: the return value, the address of
  the root inode handed to \<^verbatim>\<open>d_make_root\<close>, which is taken to succeed, and the
  cache. When \<^verbatim>\<open>pfs_inode\<close> returns \<^verbatim>\<open>NULL\<close> the code jumps to
  \<^verbatim>\<open>unlock_new_inode(root_inode)\<close>, a null dereference: \<open>None\<close>.
\<close>

definition pantryfs_fill_super ::
  "layout \<Rightarrow> bool \<Rightarrow> disk \<Rightarrow> inode list \<Rightarrow> (int \<times> nat option \<times> inode list) option" where
  "pantryfs_fill_super L oom d c =
     (case bread_sb L d of
        Null \<Rightarrow> Some (- EIO, None, c)
      | Foreign \<Rightarrow> None
      | Buf pantry_sb \<Rightarrow>
          if PANTRYFS_MAGIC_NUMBER \<noteq> magic pantry_sb then Some (- EINVAL, None, c)
          else
            (case bread_istore L d of
               Null \<Rightarrow> Some (- EIO, None, c)
             | Foreign \<Rightarrow> None
             | Buf istore \<Rightarrow>
                 (case pfs_inode oom c PANTRYFS_ROOT_INODE_NUMBER
                         (map_option ((!) istore)
                            (PFS_inode_from_istore L PANTRYFS_ROOT_INODE_NUMBER)) of
                    None \<Rightarrow> None
                  | Some (None, c') \<Rightarrow> None
                  | Some (Some a, c') \<Rightarrow> Some (0, Some a, c'))))"

section \<open>Example states\<close>

text \<open>
  An instance of the layout parameters: 88-byte inode records and 256-byte
  directory entries, which gives 46 inode slots, 16 directory slots and bitmaps
  of two words.
\<close>

definition ref_layout :: layout where
  "ref_layout = \<lparr>PFS_INODE_SIZE = 88, PFS_DENTRY_SIZE = 256,
     PANTRYFS_FILENAME_BUF_SIZE = 247, PANTRYFS_MAX_FILENAME_LENGTH = 246\<rparr>"

text \<open>The root directory: inode number 1, data block 2.\<close>

definition root_record :: pantryfs_inode where
  "root_record = \<lparr>mode = 16895, uid = 0, gid = 0, i_atime = 0, i_mtime = 0, i_ctime = 0,
     nlink = 2, data_block_number = 2, file_size = 4096\<rparr>"

definition root_inode :: inode where
  "root_inode = \<lparr>i_ino = 1, i_mode = 16895, i_nlink = 2, i_uid = 0, i_gid = 0,
     v_atime = 0, v_mtime = 0, v_ctime = 0, i_size = 4096, i_blocks = 1,
     i_fop = pantryfs_dir_ops, i_new = False, i_dirty = False\<rparr>"

text \<open>
  A regular file as create writes it at time 1000 into data block \<open>b\<close>, its
  directory entry, and its in-memory inode.
\<close>

definition file_record :: "nat \<Rightarrow> pantryfs_inode" where
  "file_record b = \<lparr>mode = 33206, uid = 0, gid = 0, i_atime = 1000, i_mtime = 1000,
     i_ctime = 1000, nlink = 1, data_block_number = b, file_size = 0\<rparr>"

definition file_dentry :: "string \<Rightarrow> nat \<Rightarrow> pantryfs_dir_entry" where
  "file_dentry name n = \<lparr>inode_no = n, active = 1, filename = name\<rparr>"

definition file_inode :: "nat \<Rightarrow> inode" where
  "file_inode n = \<lparr>i_ino = n, i_mode = 33206, i_nlink = 1, i_uid = 0, i_gid = 0,
     v_atime = 1000, v_mtime = 1000, v_ctime = 1000, i_size = 0, i_blocks = 1,
     i_fop = pantryfs_file_ops, i_new = False, i_dirty = False\<rparr>"

text \<open>
  A store is given by its superblock bitmaps, its inode records after the
  root's and its directory entries; every block from 3 on is a readable data
  block of zeros.
\<close>

definition mk_disk ::
  "32 word list \<Rightarrow> 32 word list \<Rightarrow> pantryfs_inode list \<Rightarrow> pantryfs_dir_entry list \<Rightarrow> disk" where
  "mk_disk fi fd recs ents n =
     (if n = 0 then Some (SuperBlk \<lparr>version = 1, magic = PANTRYFS_MAGIC_NUMBER,
                                    free_inodes = fi, free_data_blocks = fd\<rparr>)
      else if n = 1 then Some (IStoreBlk (root_record # recs @ replicate (45 - length recs) zero_inode))
      else if n = 2 then Some (DirBlk (ents @ replicate (16 - length ents) zero_dentry))
      else Some (DataBlk (replicate 4096 0)))"

text \<open>
  \<open>disk_root\<close>: only the root exists. In the inode bitmap, bit 0 (the reserved
  inode number 0) and bit 1 (the root) are set; in the data-block bitmap, bits
  0 to 2 (superblock, inode store, root directory). \<open>disk_a\<close>: what create
  makes of it for the name \<open>a\<close>: inode 2 with data block 3. \<open>disk_ab\<close>: after a
  second create, for \<open>b\<close>: inode 3 with data block 4.
\<close>

definition disk_root :: disk where
  "disk_root = mk_disk [3, 0] [7, 0] [] []"

definition disk_a :: disk where
  "disk_a = mk_disk [7, 0] [15, 0] [file_record 3] [file_dentry ''a'' 2]"

definition disk_ab :: disk where
  "disk_ab = mk_disk [15, 0] [31, 0] [file_record 3, file_record 4]
               [file_dentry ''a'' 2, file_dentry ''b'' 3]"

text \<open>
  \<open>disk_link2\<close>: inode 2 has two names and link count 2. \<open>disk_c4\<close>: a store
  in which bit \<open>i\<close> of the inode bitmap stands for inode number \<open>i + 1\<close>: bits
  0 and 1 for the root and for inode 2, which is named \<open>a\<close>.
\<close>

definition disk_link2 :: disk where
  "disk_link2 = mk_disk [7, 0] [15, 0] [(file_record 3)\<lparr>nlink := 2\<rparr>]
                  [file_dentry ''a'' 2, file_dentry ''a2'' 2]"

definition disk_c4 :: disk where
  "disk_c4 = mk_disk [3, 0] [15, 0] [file_record 3] [file_dentry ''a'' 2]"

text \<open>
  \<open>disk_full_dir\<close>: sixteen files, inodes 2 to 17 with data blocks 3 to 18, fill
  the root directory. \<open>disk_full_inodes\<close>: the same directory, and every bit
  below \<open>PFS_MAX_INODES\<close> is set in both bitmaps: besides the sixteen files,
  inodes 18 to 45 have records and no name.
\<close>

definition full_dir :: "pantryfs_dir_entry list" where
  "full_dir = map (\<lambda>n. file_dentry (replicate (n - 1) CHR ''x'') n) [2..<18]"

definition disk_full_dir :: disk where
  "disk_full_dir =
     mk_disk [262143, 0] [524287, 0] (map (\<lambda>n. file_record (n + 1)) [2..<18]) full_dir"

definition disk_full_inodes :: disk where
  "disk_full_inodes =
     mk_disk [4294967295, 16383] [4294967295, 32767]
       (map (\<lambda>n. file_record (n + 1)) [2..<46]) full_dir"

section \<open>The invariant of the data model\<close>

text \<open>
  Bit \<open>i\<close> of \<^verbatim>\<open>free_inodes\<close> is set exactly when slot \<open>i\<close> of the inode store,
  the slot of inode number \<open>i + 1\<close>, holds a record that is not zero-filled.
\<close>

definition bitmap_table_inv :: "layout \<Rightarrow> pantryfs_super_block \<Rightarrow> pantryfs_inode list \<Rightarrow> bool" where
  "bitmap_table_inv L s t =
     list_all (\<lambda>i. IS_SET (free_inodes s) i = (t ! i \<noteq> zero_inode)) [0..<PFS_MAX_INODES L]"

text \<open>
  The same with the bits numbered like the inodes, as create sets them: bit
  \<open>i + 1\<close> is set exactly when slot \<open>i\<close>, the slot of inode number \<open>i + 1\<close>,
  holds a record that is not zero-filled.
\<close>

definition bitmap_number_inv :: "layout \<Rightarrow> pantryfs_super_block \<Rightarrow> pantryfs_inode list \<Rightarrow> bool" where
  "bitmap_number_inv L s t =
     list_all (\<lambda>i. IS_SET (free_inodes s) (i + 1) = (t ! i \<noteq> zero_inode))
       [0..<PFS_MAX_INODES L]"

section \<open>Arithmetic helpers\<close>

lemma u64_id: "0 \<le> x \<Longrightarrow> x < 2 ^ 64 \<Longrightarrow> u64 x = x"
  by (simp add: u64_def)

lemma s64_id: "0 \<le> x \<Longrightarrow> x < 2 ^ 63 \<Longrightarrow> s64 x = x"
  by (simp add: s64_def)

lemma read_amount_clip:
  assumes "0 \<le> ppos" "ppos < PFS_BLOCK_SIZE" "int len + ppos < 2 ^ 64"
  shows "read_amount len ppos = min (int len) (PFS_BLOCK_SIZE - ppos)"
proof -
  have l: "u64 (int len) = int len" using assms by (intro u64_id) auto
  have s: "u64 (int len + ppos) = int len + ppos" using assms by (intro u64_id) auto
  have b: "u64 (PFS_BLOCK_SIZE - ppos) = PFS_BLOCK_SIZE - ppos"
    using assms by (intro u64_id) (auto simp: PFS_BLOCK_SIZE_def)
  show ?thesis
    unfolding read_amount_def l s b by auto
qed

section \<open>Facts about the example states\<close>

lemma ref_layout_sizes:
  "PFS_MAX_INODES ref_layout = 46" "PFS_MAX_CHILDREN ref_layout = 16"
  "bitvec_len ref_layout = 2"
  by (simp_all add: PFS_MAX_INODES_def PFS_MAX_CHILDREN_def bitvec_len_def ref_layout_def)

lemma bread_istore_mk_disk:
  "length recs \<le> 45 \<Longrightarrow>
   bread_istore ref_layout (mk_disk fi fd recs ents)
     = Buf (root_record # recs @ replicate (45 - length recs) zero_inode)"
  by (simp add: bread_istore_def mk_disk_def ref_layout_sizes
      PANTRYFS_INODE_STORE_DATABLOCK_NUMBER_def)

lemma bread_sb_mk_disk:
  "length fi = 2 \<Longrightarrow> length fd = 2 \<Longrightarrow>
   bread_sb ref_layout (mk_disk fi fd recs ents)
     = Buf \<lparr>version = 1, magic = PANTRYFS_MAGIC_NUMBER, free_inodes = fi, free_data_blocks = fd\<rparr>"
  by (simp add: bread_sb_def mk_disk_def ref_layout_sizes
      PANTRYFS_SUPERBLOCK_DATABLOCK_NUMBER_def)

lemma bread_dir_mk_disk:
  "length ents \<le> 16 \<Longrightarrow>
   bread_dir ref_layout (mk_disk fi fd recs ents) 2
     = Buf (ents @ replicate (16 - length ents) zero_dentry)"
  by (simp add: bread_dir_def mk_disk_def ref_layout_sizes)

lemma bread_data_mk_disk:
  "3 \<le> n \<Longrightarrow> bread_data (mk_disk fi fd recs ents) n = Buf (replicate 4096 0)"
  by (simp add: bread_data_def mk_disk_def)

section \<open>Properties of read\<close>

text \<open>
  C8. \<^verbatim>\<open>pantryfs_read\<close> at an offset equal to the block size returns 0 and
  delivers nothing; at a larger offset it returns \<^verbatim>\<open>-EINVAL\<close>; at an offset
  inside the block, when the inode store and the data block can be read and the
  user buffer takes the bytes, it delivers \<open>min len (4096 - offset)\<close> bytes of
  the block from the offset on, returns that count and advances the offset by
  it, so that the offset never passes the block size.
\<close>

theorem pantryfs_read_contract:
  "pantryfs_read L d ino ucap len PFS_BLOCK_SIZE = Some (0, PFS_BLOCK_SIZE, [])
   \<and> (PFS_BLOCK_SIZE < ppos \<longrightarrow>
        pantryfs_read L d ino ucap len ppos = Some (- EINVAL, ppos, []))
   \<and> (0 \<le> ppos \<and> ppos < PFS_BLOCK_SIZE \<and> int len + ppos < 2 ^ 64
        \<and> bread_istore L d = Buf istore
        \<and> PFS_datablock_no_from_inode L istore ino = Some dbn
        \<and> bread_data d dbn = Buf bytes
        \<and> min (int len) (PFS_BLOCK_SIZE - ppos) \<le> int ucap \<longrightarrow>
        (\<exists>n. pantryfs_read L d ino ucap len ppos
                = Some (n, ppos + n, take (nat n) (drop (nat ppos) bytes))
           \<and> n = min (int len) (PFS_BLOCK_SIZE - ppos)
           \<and> 0 \<le> n \<and> n \<le> int len \<and> ppos + n \<le> PFS_BLOCK_SIZE
           \<and> length (take (nat n) (drop (nat ppos) bytes)) = nat n))"
proof (intro conjI impI)
  show "pantryfs_read L d ino ucap len PFS_BLOCK_SIZE = Some (0, PFS_BLOCK_SIZE, [])"
    by (simp add: pantryfs_read_def)
next
  assume "PFS_BLOCK_SIZE < ppos"
  then show "pantryfs_read L d ino ucap len ppos = Some (- EINVAL, ppos, [])"
    by (simp add: pantryfs_read_def)
next
  assume h: "0 \<le> ppos \<and> ppos < PFS_BLOCK_SIZE \<and> int len + ppos < 2 ^ 64
        \<and> bread_istore L d = Buf istore
        \<and> PFS_datablock_no_from_inode L istore ino = Some dbn
        \<and> bread_data d dbn = Buf bytes
        \<and> min (int len) (PFS_BLOCK_SIZE - ppos) \<le> int ucap"
  define n where "n = min (int len) (PFS_BLOCK_SIZE - ppos)"
  have amt: "read_amount len ppos = n"
    using h read_amount_clip n_def by simp
  have n0: "0 \<le> n" "n \<le> int len" "ppos + n \<le> PFS_BLOCK_SIZE" "n \<le> 4096"
    using h by (auto simp: n_def PFS_BLOCK_SIZE_def)
  have sn: "s64 n = n" "s64 (ppos + n) = ppos + n"
    using n0 h by (auto intro!: s64_id simp: PFS_BLOCK_SIZE_def)
  have len: "length bytes = 4096"
    using h by (auto simp: bread_data_def split: option.splits block.splits if_splits)
  have run: "pantryfs_read L d ino ucap len ppos
               = Some (n, ppos + n, take (nat n) (drop (nat ppos) bytes))"
    using h n0 sn amt by (simp add: pantryfs_read_def Let_def n_def[symmetric])
  have ln: "length (take (nat n) (drop (nat ppos) bytes)) = nat n"
    using len n0 h by (auto simp: PFS_BLOCK_SIZE_def min_def)
  show "\<exists>n. pantryfs_read L d ino ucap len ppos
                = Some (n, ppos + n, take (nat n) (drop (nat ppos) bytes))
           \<and> n = min (int len) (PFS_BLOCK_SIZE - ppos)
           \<and> 0 \<le> n \<and> n \<le> int len \<and> ppos + n \<le> PFS_BLOCK_SIZE
           \<and> length (take (nat n) (drop (nat ppos) bytes)) = nat n"
    using run ln n0 n_def by blast
qed

theorem pantryfs_read_contract_witness:
  "pantryfs_read ref_layout disk_a (file_inode 2) 100 100 4096 = Some (0, 4096, [])
   \<and> pantryfs_read ref_layout disk_a (file_inode 2) 100 100 5000 = Some (- 22, 5000, [])
   \<and> pantryfs_read ref_layout disk_a (file_inode 2) 100 100 4090
       = Some (6, 4096, take 6 (drop 4090 (replicate 4096 0)))"
proof -
  have ist: "bread_istore ref_layout disk_a
              = Buf (root_record # [file_record 3] @ replicate (45 - length [file_record 3]) zero_inode)"
    unfolding disk_a_def by (rule bread_istore_mk_disk) simp
  have db: "PFS_datablock_no_from_inode ref_layout
              (root_record # [file_record 3] @ replicate (45 - length [file_record 3]) zero_inode)
              (file_inode 2) = Some 3"
    by (simp add: PFS_datablock_no_from_inode_def PFS_inode_from_istore_def ref_layout_sizes
        file_inode_def file_record_def)
  have bd: "bread_data disk_a 3 = Buf (replicate 4096 0)"
    unfolding disk_a_def by (rule bread_data_mk_disk) simp
  have a: "pantryfs_read ref_layout disk_a (file_inode 2) 100 100 4096 = Some (0, 4096, [])"
    using pantryfs_read_contract [of ref_layout disk_a "file_inode 2" 100 100 5000]
    by (simp add: PFS_BLOCK_SIZE_def)
  have b: "pantryfs_read ref_layout disk_a (file_inode 2) 100 100 5000 = Some (- 22, 5000, [])"
    using pantryfs_read_contract [of ref_layout disk_a "file_inode 2" 100 100 5000]
    by (simp add: PFS_BLOCK_SIZE_def EINVAL_def)
  have c: "pantryfs_read ref_layout disk_a (file_inode 2) 100 100 4090
             = Some (6, 4096, take 6 (drop 4090 (replicate 4096 0)))"
    using pantryfs_read_contract [of ref_layout disk_a "file_inode 2" 100 100 4090
        "root_record # [file_record 3] @ replicate (45 - length [file_record 3]) zero_inode"
        3 "replicate 4096 0"] ist db bd
    by (simp add: PFS_BLOCK_SIZE_def)
  show ?thesis using a b c by simp
qed

section \<open>Facts about the block store\<close>

lemmas block_numbers =
  PANTRYFS_SUPERBLOCK_DATABLOCK_NUMBER_def PANTRYFS_INODE_STORE_DATABLOCK_NUMBER_def

lemma bread_istore_BufD:
  "bread_istore L d = Buf t \<Longrightarrow> d 1 = Some (IStoreBlk t) \<and> length t = PFS_MAX_INODES L"
  by (auto simp: bread_istore_def block_numbers split: option.splits block.splits if_splits)

lemma bread_sb_BufD:
  "bread_sb L d = Buf s \<Longrightarrow>
     d 0 = Some (SuperBlk s) \<and> length (free_inodes s) = bitvec_len L
       \<and> length (free_data_blocks s) = bitvec_len L"
  by (auto simp: bread_sb_def block_numbers split: option.splits block.splits if_splits)

lemma bread_dir_BufD:
  "bread_dir L d n = Buf es \<Longrightarrow> d n = Some (DirBlk es) \<and> length es = PFS_MAX_CHILDREN L"
  by (auto simp: bread_dir_def split: option.splits block.splits if_splits)

lemma bread_data_BufD:
  "bread_data d n = Buf bs \<Longrightarrow> d n = Some (DataBlk bs) \<and> length bs = 4096"
  by (auto simp: bread_data_def split: option.splits block.splits if_splits)

lemma bread_istore_upd_other:
  "n \<noteq> 1 \<Longrightarrow> bread_istore L (d(n \<mapsto> b)) = bread_istore L d"
  by (simp add: bread_istore_def block_numbers)

lemma bread_istore_upd_same:
  "length t = PFS_MAX_INODES L \<Longrightarrow> bread_istore L (d(1 \<mapsto> IStoreBlk t)) = Buf t"
  by (simp add: bread_istore_def block_numbers)

lemma bread_sb_upd_other:
  "n \<noteq> 0 \<Longrightarrow> bread_sb L (d(n \<mapsto> b)) = bread_sb L d"
  by (simp add: bread_sb_def block_numbers)

lemma replicate_upd0: "0 < n \<Longrightarrow> (replicate n x)[0 := y] = y # replicate (n - 1) x"
  by (cases n) simp_all

section \<open>Properties of create\<close>

text \<open>
  Running create on the example states: from \<open>disk_root\<close> it makes \<open>disk_a\<close>
  and from \<open>disk_a\<close> it makes \<open>disk_ab\<close>, whatever the mode argument is.
\<close>

lemmas create_unfold =
  create_inode_def create_dentry_def bread_istore_def bread_dir_def mk_disk_def
  PFS_inode_from_istore_def PFS_datablock_no_from_inode_def Let_def
  ref_layout_sizes block_numbers root_inode_def root_record_def file_dentry_def

lemma create_disk_root:
  "pantryfs_create ref_layout disk_root root_inode ''a'' m 1000 = Some (0, disk_a)"
  unfolding disk_root_def disk_a_def
  apply (simp add: pantryfs_create_def bread_sb_mk_disk ref_layout_sizes scan.simps IS_SET_def
      Let_def SETBIT_def)
  apply (simp add: create_unfold scan.simps)
  apply (auto simp: fun_eq_iff mk_disk_def replicate_upd0 new_inode_record_def file_record_def
      zero_inode_def zero_dentry_def S_IFREG_def ref_layout_def file_dentry_def root_record_def)
  done

lemma create_disk_a:
  "pantryfs_create ref_layout disk_a root_inode ''b'' m 1000 = Some (0, disk_ab)"
  unfolding disk_ab_def disk_a_def
  apply (simp add: pantryfs_create_def bread_sb_mk_disk ref_layout_sizes scan.simps IS_SET_def
      Let_def SETBIT_def)
  apply (simp add: create_unfold scan.simps)
  apply (auto simp: fun_eq_iff mk_disk_def replicate_upd0 new_inode_record_def file_record_def
      zero_inode_def zero_dentry_def S_IFREG_def ref_layout_def file_dentry_def root_record_def)
  done

text \<open>
  When either scan finds no clear bit, create returns 0 and leaves the store as
  it was.
\<close>

lemma create_no_inode_bit:
  "bread_sb L d = Buf s \<Longrightarrow>
   scan (\<lambda>k. \<not> IS_SET (free_inodes s) k) (PFS_MAX_INODES L) 0 = PFS_MAX_INODES L \<Longrightarrow>
   pantryfs_create L d parent name mode_arg now = Some (0, d)"
  by (simp add: pantryfs_create_def Let_def)

lemma create_no_data_bit:
  "bread_sb L d = Buf s \<Longrightarrow>
   scan (\<lambda>k. \<not> IS_SET (free_data_blocks s) k) (PFS_MAX_INODES L) 0 = PFS_MAX_INODES L \<Longrightarrow>
   pantryfs_create L d parent name mode_arg now = Some (0, d)"
  by (simp add: pantryfs_create_def Let_def)

lemma full_dir_length: "length full_dir = 16"
  by (simp add: full_dir_def)

lemma full_dir_active: "i < 16 \<Longrightarrow> active (full_dir ! i) \<noteq> 0"
  by (simp add: full_dir_def file_dentry_def del: upt_rec_numeral)

lemma replicate_x_not_a: "replicate k CHR ''x'' \<noteq> ''a''"
  by (cases k) auto

lemma full_dir_names: "list_all (\<lambda>e. filename e \<noteq> ''a'') full_dir"
  by (auto simp: full_dir_def file_dentry_def list_all_iff replicate_x_not_a
      simp del: upt_rec_numeral)

lemma scan_none:
  "(\<And>j. i \<le> j \<Longrightarrow> j < n \<Longrightarrow> \<not> P j) \<Longrightarrow> i \<le> n \<Longrightarrow> scan P n i = n"
proof (induction P n i rule: scan.induct)
  case (1 P n i)
  show ?case
  proof (cases "i < n")
    case True
    then have "\<not> P i" using "1.prems" by simp
    moreover have "scan P n (Suc i) = n"
      using True \<open>\<not> P i\<close> "1.prems" by (intro "1.IH") auto
    ultimately show ?thesis using True by (subst scan.simps) simp
  next
    case False
    then show ?thesis using "1.prems" by (subst scan.simps) simp
  qed
qed

lemma scan_full_dir: "scan (\<lambda>i. active (full_dir ! i) = 0) 16 0 = 16"
  by (rule scan_none) (simp_all add: full_dir_active)

lemma disk_full_dir_parts:
  "bread_sb ref_layout disk_full_dir = Buf \<lparr>version = 1, magic = PANTRYFS_MAGIC_NUMBER,
               free_inodes = [262143, 0], free_data_blocks = [524287, 0]\<rparr>"
  "bread_dir ref_layout disk_full_dir 2 = Buf full_dir"
  unfolding disk_full_dir_def
  by (simp_all add: bread_sb_mk_disk bread_dir_mk_disk full_dir_length del: upt_rec_numeral)

lemma create_disk_full_dir:
  "\<exists>d'. pantryfs_create ref_layout disk_full_dir root_inode ''a'' 33188 1000 = Some (0, d')
         \<and> bread_dir ref_layout d' 2 = Buf full_dir
         \<and> bread_sb ref_layout d' = Buf \<lparr>version = 1, magic = PANTRYFS_MAGIC_NUMBER,
               free_inodes = [524287, 0], free_data_blocks = [1048575, 0]\<rparr>"
proof -
  define d1 where "d1 = disk_full_dir(PANTRYFS_SUPERBLOCK_DATABLOCK_NUMBER \<mapsto> SuperBlk
      \<lparr>version = 1, magic = PANTRYFS_MAGIC_NUMBER,
       free_inodes = [524287, 0], free_data_blocks = [1048575, 0]\<rparr>)"
  have cr: "pantryfs_create ref_layout disk_full_dir root_inode ''a'' 33188 1000
          = create_inode ref_layout d1 root_inode ''a'' 1000 18 19"
    by (simp add: pantryfs_create_def disk_full_dir_parts ref_layout_sizes scan.simps IS_SET_def
        Let_def SETBIT_def d1_def)
       (simp add: eval_nat_numeral)
  obtain t where t: "bread_istore ref_layout d1 = Buf t" "t ! 0 = root_record"
    unfolding d1_def disk_full_dir_def
    by (simp add: bread_istore_upd_other block_numbers bread_istore_mk_disk del: upt_rec_numeral)
  define t' where "t' = t[17 := new_inode_record (t ! 17) root_inode 19 1000]"
  define d2 where "d2 = d1(PANTRYFS_INODE_STORE_DATABLOCK_NUMBER \<mapsto> IStoreBlk t')"
  have lt: "length t = 46" using t(1) by (auto dest: bread_istore_BufD simp: ref_layout_sizes)
  have pdb: "PFS_datablock_no_from_inode ref_layout t' root_inode = Some 2"
    using t(2) lt
    by (simp add: PFS_datablock_no_from_inode_def PFS_inode_from_istore_def ref_layout_sizes
        root_inode_def t'_def root_record_def)
  have dir: "bread_dir ref_layout d2 2 = Buf full_dir"
    using disk_full_dir_parts(2) by (simp add: d2_def d1_def bread_dir_def block_numbers)
  have ci: "create_inode ref_layout d1 root_inode ''a'' 1000 18 19 = Some (0, d2)"
    using t(1) pdb dir
    by (simp add: create_inode_def PFS_inode_from_istore_def ref_layout_sizes Let_def
        t'_def [symmetric] d2_def [symmetric] create_dentry_def scan_full_dir)
  have sb: "bread_sb ref_layout d2 = Buf \<lparr>version = 1, magic = PANTRYFS_MAGIC_NUMBER,
               free_inodes = [524287, 0], free_data_blocks = [1048575, 0]\<rparr>"
    by (simp add: d2_def d1_def bread_sb_def block_numbers ref_layout_sizes)
  show ?thesis
    using cr ci dir sb by auto
qed

lemma create_disk_full_inodes:
  "pantryfs_create ref_layout disk_full_inodes root_inode ''a'' 33188 1000
     = Some (0, disk_full_inodes)"
proof (rule create_no_inode_bit)
  show "bread_sb ref_layout disk_full_inodes
          = Buf \<lparr>version = 1, magic = PANTRYFS_MAGIC_NUMBER,
                 free_inodes = [4294967295, 16383], free_data_blocks = [4294967295, 32767]\<rparr>"
    unfolding disk_full_inodes_def by (rule bread_sb_mk_disk) simp_all
  show "scan (\<lambda>k. \<not> IS_SET (free_inodes \<lparr>version = 1, magic = PANTRYFS_MAGIC_NUMBER,
                 free_inodes = [4294967295, 16383], free_data_blocks = [4294967295, 32767]\<rparr>) k)
          (PFS_MAX_INODES ref_layout) 0 = PFS_MAX_INODES ref_layout"
    by (simp add: ref_layout_sizes scan.simps IS_SET_def)
qed

text \<open>
  C3. The claim: create fails with an error when a bitmap has no clear bit or
  the directory block has no inactive slot, and never returns success without
  having created the file. The code: on \<open>disk_full_inodes\<close>, where all 46 bits
  of the inode bitmap are set, create returns 0 and leaves the store as it
  was; on \<open>disk_full_dir\<close>, where all 16 directory slots are active, create
  returns 0, has set bit 18 of the inode bitmap and bit 19 of the data-block
  bitmap, and the directory block is as before, with no entry for the name.
\<close>

theorem create_returns_zero_on_exhaustion:
  "pantryfs_create ref_layout disk_full_inodes root_inode ''a'' 33188 1000
     = Some (0, disk_full_inodes)
   \<and> (\<exists>d'. pantryfs_create ref_layout disk_full_dir root_inode ''a'' 33188 1000 = Some (0, d')
         \<and> bread_dir ref_layout d' 2 = Buf full_dir
         \<and> list_all (\<lambda>e. filename e \<noteq> ''a'') full_dir
         \<and> bread_sb ref_layout d' = Buf \<lparr>version = 1, magic = PANTRYFS_MAGIC_NUMBER,
               free_inodes = [524287, 0], free_data_blocks = [1048575, 0]\<rparr>)"
  using create_disk_full_inodes create_disk_full_dir full_dir_names by auto

text \<open>The directory step returns 0 and leaves the inode store as it was.\<close>

lemma create_dentry_istore:
  assumes "bread_dir L d pdb = Buf es" "bread_istore L d = Buf t"
  shows "bread_istore L (snd (create_dentry L d pdb es n name)) = Buf t"
proof -
  have "pdb \<noteq> 1"
    using assms by (auto dest!: bread_dir_BufD bread_istore_BufD)
  then show ?thesis
    using assms(2) by (simp add: create_dentry_def Let_def bread_istore_upd_other)
qed

lemma create_dentry_ret: "fst (create_dentry L d pdb es n name) = 0"
  by (simp add: create_dentry_def Let_def)

lemma new_inode_record_fields:
  "nlink (new_inode_record r parent b now) = 1"
  "mode (new_inode_record r parent b now) = S_IFREG OR 438"
  "file_size (new_inode_record r parent b now) = 0"
  "data_block_number (new_inode_record r parent b now) = b"
  "i_atime (new_inode_record r parent b now) = now"
  "i_mtime (new_inode_record r parent b now) = now"
  "i_ctime (new_inode_record r parent b now) = now"
  by (simp_all add: new_inode_record_def)

text \<open>
  C5, as the claim states it: the new record's mode equals the mode argument.
  With the argument 33188 (a regular file with permissions 0644) the record of
  the new inode 2 holds another mode.
\<close>

theorem create_mode_argument_counterexample:
  "\<exists>d' t. pantryfs_create ref_layout disk_root root_inode ''a'' 33188 1000 = Some (0, d')
      \<and> bread_istore ref_layout d' = Buf t \<and> mode (t ! (2 - 1)) \<noteq> 33188"
proof -
  have "bread_istore ref_layout disk_a
          = Buf (root_record # [file_record 3] @ replicate (45 - length [file_record 3]) zero_inode)"
    unfolding disk_a_def by (rule bread_istore_mk_disk) simp
  then show ?thesis
    using create_disk_root [of 33188] by (simp add: file_record_def)
qed

text \<open>
  C5, amended. Take a create whose block reads succeed, whose scan of the inode
  bitmap stops at a clear bit \<open>new_ino_no\<close> with \<open>1 \<le> new_ino_no\<close>, whose scan of
  the data-block bitmap stops at a clear bit, and whose parent has an inode
  number from 1 to \<^verbatim>\<open>PFS_MAX_INODES\<close>. It returns 0, and the inode store it leaves
  is the old one with slot \<open>new_ino_no - 1\<close> replaced by the new record, which has
  link count 1, the fixed mode \<^verbatim>\<open>S_IFREG | 0666\<close> whatever the mode argument is,
  size 0 and its three timestamps equal to the current time. This covers both
  exits that follow the write of the record: the directory entry written, and
  no inactive directory slot found. When bit 0 of the inode bitmap is clear the
  scan stops at candidate number 0, whose record address lies before the start
  of the inode store; nothing is stated for that case.
\<close>

theorem create_writes_fixed_mode_record:
  assumes sb: "bread_sb L d = Buf pantry_sb"
    and s1: "scan (\<lambda>k. \<not> IS_SET (free_inodes pantry_sb) k) (PFS_MAX_INODES L) 0 = new_ino_no"
    and s2: "scan (\<lambda>k. \<not> IS_SET (free_data_blocks pantry_sb) k) (PFS_MAX_INODES L) 0 = new_db_no"
    and lo: "1 \<le> new_ino_no"
    and hi: "new_ino_no < PFS_MAX_INODES L" and hib: "new_db_no < PFS_MAX_INODES L"
    and ist: "bread_istore L d = Buf istore"
    and t: "t = istore[new_ino_no - 1 :=
                 new_inode_record (istore ! (new_ino_no - 1)) parent new_db_no now]"
    and plo: "1 \<le> i_ino parent" and phi: "i_ino parent \<le> PFS_MAX_INODES L"
    and dir: "bread_dir L d (data_block_number (t ! (i_ino parent - 1))) = Buf es"
  shows "\<exists>d'. pantryfs_create L d parent name mode_arg now = Some (0, d')
           \<and> bread_istore L d' = Buf t
           \<and> nlink (t ! (new_ino_no - 1)) = 1
           \<and> mode (t ! (new_ino_no - 1)) = S_IFREG OR 438
           \<and> file_size (t ! (new_ino_no - 1)) = 0
           \<and> i_atime (t ! (new_ino_no - 1)) = now
           \<and> i_mtime (t ! (new_ino_no - 1)) = now
           \<and> i_ctime (t ! (new_ino_no - 1)) = now"
proof -
  define pdb where "pdb = data_block_number (t ! (i_ino parent - 1))"
  define d1 where "d1 = d(PANTRYFS_SUPERBLOCK_DATABLOCK_NUMBER \<mapsto> SuperBlk (pantry_sb
      \<lparr>free_inodes := SETBIT (free_inodes pantry_sb) new_ino_no,
       free_data_blocks := SETBIT (free_data_blocks pantry_sb) new_db_no\<rparr>))"
  define d2 where "d2 = d1(PANTRYFS_INODE_STORE_DATABLOCK_NUMBER \<mapsto> IStoreBlk t)"
  have cr: "pantryfs_create L d parent name mode_arg now
          = create_inode L d1 parent name now new_ino_no new_db_no"
    using sb s1 s2 hi hib by (simp add: pantryfs_create_def Let_def d1_def)
  have len: "length istore = PFS_MAX_INODES L" "d 1 = Some (IStoreBlk istore)"
    using ist by (auto dest: bread_istore_BufD)
  have d0: "d 0 = Some (SuperBlk pantry_sb)"
    using sb by (auto dest: bread_sb_BufD)
  have ist1: "bread_istore L d1 = Buf istore"
    using ist by (simp add: d1_def block_numbers bread_istore_upd_other)
  have k: "PFS_inode_from_istore L new_ino_no = Some (new_ino_no - 1)"
    using lo hi by (simp add: PFS_inode_from_istore_def)
  have lent: "length t = PFS_MAX_INODES L"
    using len(1) by (simp add: t)
  have ist2: "bread_istore L d2 = Buf t"
    unfolding d2_def block_numbers using lent by (rule bread_istore_upd_same)
  have pd: "PFS_datablock_no_from_inode L t parent = Some pdb"
    using plo phi by (simp add: PFS_datablock_no_from_inode_def PFS_inode_from_istore_def pdb_def)
  have dpdb: "d pdb = Some (DirBlk es)" "length es = PFS_MAX_CHILDREN L"
    using dir by (auto simp: pdb_def dest: bread_dir_BufD)
  have "pdb \<noteq> 0"
  proof
    assume "pdb = 0"
    then show False using dpdb(1) d0 by simp
  qed
  moreover have "pdb \<noteq> 1"
  proof
    assume "pdb = 1"
    then show False using dpdb(1) len(2) by simp
  qed
  ultimately have dir2: "bread_dir L d2 pdb = Buf es"
    using dpdb by (simp add: bread_dir_def d2_def d1_def block_numbers)
  have ci: "create_inode L d1 parent name now new_ino_no new_db_no
          = Some (create_dentry L d2 pdb es new_ino_no name)"
    using ist1 k pd dir2 unfolding d2_def t
    by (simp add: create_inode_def Let_def)
  have res: "pantryfs_create L d parent name mode_arg now
          = Some (0, snd (create_dentry L d2 pdb es new_ino_no name))"
    using cr ci create_dentry_ret [of L d2 pdb es new_ino_no name]
    by (simp add: prod_eq_iff)
  have fin: "bread_istore L (snd (create_dentry L d2 pdb es new_ino_no name)) = Buf t"
    by (rule create_dentry_istore [OF dir2 ist2])
  have idx: "new_ino_no - 1 < length istore"
    using hi len(1) by simp
  show ?thesis
    using res fin idx by (simp add: t new_inode_record_fields)
qed

theorem create_writes_fixed_mode_record_witness:
  "pantryfs_create ref_layout disk_root root_inode ''a'' 33188 1000 = Some (0, disk_a)
   \<and> (\<exists>t. bread_istore ref_layout disk_a = Buf t
         \<and> nlink (t ! 1) = 1 \<and> mode (t ! 1) = 33206 \<and> file_size (t ! 1) = 0
         \<and> i_atime (t ! 1) = 1000 \<and> i_mtime (t ! 1) = 1000 \<and> i_ctime (t ! 1) = 1000)"
proof -
  define t0 where "t0 = root_record # replicate 45 zero_inode"
  define t where "t = t0[2 - 1 := new_inode_record (t0 ! (2 - 1)) root_inode 3 1000]"
  have sb: "bread_sb ref_layout disk_root
              = Buf \<lparr>version = 1, magic = PANTRYFS_MAGIC_NUMBER,
                     free_inodes = [3, 0], free_data_blocks = [7, 0]\<rparr>"
    unfolding disk_root_def by (rule bread_sb_mk_disk) simp_all
  have s1: "scan (\<lambda>k. \<not> IS_SET (free_inodes \<lparr>version = 1, magic = PANTRYFS_MAGIC_NUMBER,
                     free_inodes = [3, 0], free_data_blocks = [7, 0]\<rparr>) k)
              (PFS_MAX_INODES ref_layout) 0 = 2"
    by (simp add: ref_layout_sizes scan.simps IS_SET_def)
  have s2: "scan (\<lambda>k. \<not> IS_SET (free_data_blocks \<lparr>version = 1, magic = PANTRYFS_MAGIC_NUMBER,
                     free_inodes = [3, 0], free_data_blocks = [7, 0]\<rparr>) k)
              (PFS_MAX_INODES ref_layout) 0 = 3"
    by (simp add: ref_layout_sizes scan.simps IS_SET_def)
  have ist: "bread_istore ref_layout disk_root = Buf t0"
    unfolding disk_root_def t0_def
    using bread_istore_mk_disk [where recs = "[]"] by simp
  have dir: "bread_dir ref_layout disk_root (data_block_number (t ! (i_ino root_inode - 1)))
               = Buf (replicate 16 zero_dentry)"
    unfolding disk_root_def
    using bread_dir_mk_disk [where ents = "[]"]
    by (simp add: t_def t0_def root_inode_def root_record_def)
  have cr: "pantryfs_create ref_layout disk_root root_inode ''a'' 33188 1000 = Some (0, disk_a)"
    by (rule create_disk_root)
  have "\<exists>d'. pantryfs_create ref_layout disk_root root_inode ''a'' 33188 1000 = Some (0, d')
           \<and> bread_istore ref_layout d' = Buf t
           \<and> nlink (t ! (2 - 1)) = 1
           \<and> mode (t ! (2 - 1)) = S_IFREG OR 438
           \<and> file_size (t ! (2 - 1)) = 0
           \<and> i_atime (t ! (2 - 1)) = 1000
           \<and> i_mtime (t ! (2 - 1)) = 1000
           \<and> i_ctime (t ! (2 - 1)) = 1000"
    by (rule create_writes_fixed_mode_record [OF sb s1 s2 _ _ _ ist t_def _ _ dir])
       (simp_all add: ref_layout_sizes root_inode_def)
  then show ?thesis using cr by (auto simp: S_IFREG_def)
qed

section \<open>Properties of reclamation, unlink and evict\<close>

lemmas unlink_unfold =
  pantryfs_unlink_def unlink_reclaim_def PFS_remove_inode_def
  PFS_inode_from_istore_def PFS_datablock_no_from_inode_def Let_def
  ref_layout_sizes root_inode_def root_record_def file_dentry_def file_inode_def file_record_def
  drop_nlink_def mark_inode_dirty_def

text \<open>
  The reclamation never writes the data-block bitmap and never reads the link
  count. An unlink that leaves the link count above zero leaves the inode store
  as it was.
\<close>

lemma PFS_remove_inode_data_bitmap:
  "PFS_remove_inode L s t ino = Some (s', t') \<Longrightarrow> free_data_blocks s' = free_data_blocks s"
  by (auto simp: PFS_remove_inode_def split: option.splits if_splits)

lemma PFS_remove_inode_ignores_nlink:
  "PFS_remove_inode L s t (ino\<lparr>i_nlink := x\<rparr>) = PFS_remove_inode L s t ino"
  by (simp add: PFS_remove_inode_def PFS_datablock_no_from_inode_def
      cong: option.case_cong if_cong)

lemma evict_ignores_nlink:
  "pantryfs_evict_inode L d (ino\<lparr>i_nlink := x\<rparr>) = pantryfs_evict_inode L d ino"
  by (simp add: pantryfs_evict_inode_def PFS_remove_inode_ignores_nlink cong: bread.case_cong)

lemma unlink_keeps_istore:
  assumes "pantryfs_unlink L f d dir name dentry_inode = Some (0, d', i')"
    and "i_nlink i' \<noteq> 0" and "bread_istore L d = Buf t"
  shows "bread_istore L d' = Buf t \<and> i_nlink i' = i_nlink dentry_inode - 1"
proof -
  from assms(1,3) obtain pdb where pdb: "PFS_datablock_no_from_inode L t dir = Some pdb"
    by (auto simp: pantryfs_unlink_def split: option.splits)
  from assms(1,3) pdb obtain es where es: "bread_dir L d pdb = Buf es"
    by (auto simp: pantryfs_unlink_def EIO_def split: bread.splits)
  have p1: "pdb \<noteq> 1" using es assms(3) by (auto dest!: bread_dir_BufD bread_istore_BufD)
  define i where "i = scan (\<lambda>i. filename (es ! i) = name) (PFS_MAX_CHILDREN L) 0"
  have ni: "i \<noteq> PFS_MAX_CHILDREN L"
    using assms(1,3) pdb es
    by (auto simp: pantryfs_unlink_def Let_def i_def EFAULT_def split: if_splits)
  from assms(1,3) pdb es ni obtain k where k: "PFS_inode_from_istore L (i_ino dentry_inode) = Some k"
    by (auto simp: pantryfs_unlink_def Let_def i_def split: option.splits)
  have ur: "unlink_reclaim L (d(pdb \<mapsto> DirBlk (f k (es[i := zero_dentry])))) t
              (mark_inode_dirty (drop_nlink dentry_inode)) = Some (0, d', i')"
    using assms(1,3) pdb es ni k by (simp add: pantryfs_unlink_def Let_def i_def)
  have nl: "i_nlink (mark_inode_dirty (drop_nlink dentry_inode)) = i_nlink dentry_inode - 1"
    by (simp add: mark_inode_dirty_def drop_nlink_def)
  show ?thesis
  proof (cases "i_nlink dentry_inode - 1 = 0")
    case True
    then have "i_nlink i' = 0"
      using ur nl by (auto simp: unlink_reclaim_def EIO_def split: bread.splits option.splits)
    then show ?thesis using assms(2) by simp
  next
    case False
    then have "d' = d(pdb \<mapsto> DirBlk (f k (es[i := zero_dentry])))"
      "i' = mark_inode_dirty (drop_nlink dentry_inode)"
      using ur nl by (auto simp: unlink_reclaim_def)
    then show ?thesis using p1 assms(3) nl by (simp add: bread_istore_upd_other)
  qed
qed

text \<open>
  C1. The claim: reclamation clears the inode's bit in \<^verbatim>\<open>free_inodes\<close> and the
  data block's bit in \<^verbatim>\<open>free_data_blocks\<close> and zero-fills the record, so that
  both bits are clear after unlink of a singly-linked file. The code, on
  \<open>disk_ab\<close> for the name \<open>a\<close> (inode 2, data block 3, link count 1), whatever
  the stray write into the directory block does: unlink returns 0 and the
  record of inode 2 is zero-filled, but \<^verbatim>\<open>free_data_blocks\<close> is unchanged, so bit
  3 of it is still set, and bits 2 and 3 of \<^verbatim>\<open>free_inodes\<close> are cleared, the
  second of which belongs to inode 3, whose record is still in place.
\<close>

theorem unlink_leaves_data_block_bit_set:
  "\<forall>f. \<exists>d' i'. pantryfs_unlink ref_layout f disk_ab root_inode ''a'' (file_inode 2)
                   = Some (0, d', i')
      \<and> i_nlink i' = 0
      \<and> bread_sb ref_layout d' = Buf \<lparr>version = 1, magic = PANTRYFS_MAGIC_NUMBER,
            free_inodes = [3, 0], free_data_blocks = [31, 0]\<rparr>
      \<and> IS_SET [31, 0] 3 \<and> \<not> IS_SET [3, 0] 3
      \<and> (\<exists>t. bread_istore ref_layout d' = Buf t \<and> t ! 1 = zero_inode \<and> t ! 2 = file_record 4)"
  unfolding disk_ab_def
  apply (simp add: unlink_unfold bread_istore_mk_disk bread_dir_mk_disk scan.simps)
  apply (simp add: unlink_unfold bread_sb_def bread_istore_def mk_disk_def block_numbers
      CLEARBIT_def IS_SET_def)
  done

text \<open>
  C2. The claim: unlink decrements the link count in the in-memory inode and in
  the on-disk record, so that the record's link count is the old value minus
  one. The code, on \<open>disk_link2\<close> for the name \<open>a\<close> (inode 2, link count 2),
  whatever the stray write into the directory block does: unlink returns 0,
  the in-memory link count is 1, and the record of inode 2 in the inode store
  still has link count 2.
\<close>

theorem unlink_leaves_disk_nlink:
  "\<forall>f. \<exists>d' i'. pantryfs_unlink ref_layout f disk_link2 root_inode ''a''
                   ((file_inode 2)\<lparr>i_nlink := 2\<rparr>) = Some (0, d', i')
      \<and> i_nlink i' = 1
      \<and> (\<exists>t. bread_istore ref_layout d' = Buf t \<and> nlink (t ! 1) = 2)"
  unfolding disk_link2_def
  apply (simp add: unlink_unfold bread_istore_mk_disk bread_dir_mk_disk scan.simps)
  apply (simp add: bread_istore_def mk_disk_def block_numbers ref_layout_sizes)
  done

text \<open>
  C9. The claim: evict reclaims only an inode whose link count has reached
  zero, guards against a second reclamation of a free slot, and treats a
  still-linked inode as a fatal inconsistency. The code, on \<open>disk_a\<close> for
  inode 2 with link count 1: evict clears bit 2 of \<^verbatim>\<open>free_inodes\<close> and
  zero-fills the record of inode 2, while the directory entry \<open>a\<close> still names
  inode 2. And after unlink of \<open>a\<close> has reclaimed inode 2, evict of that inode
  reclaims once more: it reads data block number 0 from the zero-filled record
  and clears bit 0 of \<^verbatim>\<open>free_inodes\<close>.
\<close>

theorem evict_reclaims_linked_inode:
  "(\<exists>d'. pantryfs_evict_inode ref_layout disk_a (file_inode 2) = Some d'
      \<and> i_nlink (file_inode 2) = 1
      \<and> bread_sb ref_layout d' = Buf \<lparr>version = 1, magic = PANTRYFS_MAGIC_NUMBER,
            free_inodes = [3, 0], free_data_blocks = [15, 0]\<rparr>
      \<and> (\<exists>t. bread_istore ref_layout d' = Buf t \<and> t ! 1 = zero_inode)
      \<and> (\<exists>es. bread_dir ref_layout d' 2 = Buf es \<and> es ! 0 = file_dentry ''a'' 2))
   \<and> (\<forall>f. \<exists>d1 i1 d2.
          pantryfs_unlink ref_layout f disk_a root_inode ''a'' (file_inode 2) = Some (0, d1, i1)
        \<and> i_nlink i1 = 0
        \<and> bread_sb ref_layout d1 = Buf \<lparr>version = 1, magic = PANTRYFS_MAGIC_NUMBER,
              free_inodes = [3, 0], free_data_blocks = [15, 0]\<rparr>
        \<and> pantryfs_evict_inode ref_layout d1 i1 = Some d2
        \<and> bread_sb ref_layout d2 = Buf \<lparr>version = 1, magic = PANTRYFS_MAGIC_NUMBER,
              free_inodes = [2, 0], free_data_blocks = [15, 0]\<rparr>)"
proof (rule conjI)
  show "\<exists>d'. pantryfs_evict_inode ref_layout disk_a (file_inode 2) = Some d'
      \<and> i_nlink (file_inode 2) = 1
      \<and> bread_sb ref_layout d' = Buf \<lparr>version = 1, magic = PANTRYFS_MAGIC_NUMBER,
            free_inodes = [3, 0], free_data_blocks = [15, 0]\<rparr>
      \<and> (\<exists>t. bread_istore ref_layout d' = Buf t \<and> t ! 1 = zero_inode)
      \<and> (\<exists>es. bread_dir ref_layout d' 2 = Buf es \<and> es ! 0 = file_dentry ''a'' 2)"
    unfolding disk_a_def
    apply (simp add: pantryfs_evict_inode_def bread_istore_mk_disk bread_sb_mk_disk
        PFS_remove_inode_def PFS_inode_from_istore_def PFS_datablock_no_from_inode_def
        ref_layout_sizes file_inode_def file_record_def)
    apply (simp add: bread_sb_def bread_istore_def bread_dir_def mk_disk_def block_numbers
        ref_layout_sizes CLEARBIT_def)
    done
next
  show "\<forall>f. \<exists>d1 i1 d2.
          pantryfs_unlink ref_layout f disk_a root_inode ''a'' (file_inode 2) = Some (0, d1, i1)
        \<and> i_nlink i1 = 0
        \<and> bread_sb ref_layout d1 = Buf \<lparr>version = 1, magic = PANTRYFS_MAGIC_NUMBER,
              free_inodes = [3, 0], free_data_blocks = [15, 0]\<rparr>
        \<and> pantryfs_evict_inode ref_layout d1 i1 = Some d2
        \<and> bread_sb ref_layout d2 = Buf \<lparr>version = 1, magic = PANTRYFS_MAGIC_NUMBER,
              free_inodes = [2, 0], free_data_blocks = [15, 0]\<rparr>"
    unfolding disk_a_def
    apply (simp add: unlink_unfold bread_istore_mk_disk bread_dir_mk_disk scan.simps)
    apply (simp add: unlink_unfold bread_sb_def bread_istore_def mk_disk_def block_numbers
        CLEARBIT_def IS_SET_def pantryfs_evict_inode_def zero_inode_def)
    done
qed

section \<open>The invariant under create and unlink\<close>

lemma list_all_upt_step:
  "list_all P [i..<n] = (if i < n then P i \<and> list_all P [Suc i..<n] else True)"
  by (simp add: upt_rec [of i n])

lemma bitmap_table_inv_disk_c4:
  "bitmap_table_inv ref_layout
     \<lparr>version = 1, magic = PANTRYFS_MAGIC_NUMBER, free_inodes = [3, 0],
       free_data_blocks = [15, 0]\<rparr>
     (root_record # [file_record 3] @ replicate 44 zero_inode)"
  by (simp add: bitmap_table_inv_def ref_layout_sizes list_all_upt_step IS_SET_def
      root_record_def file_record_def zero_inode_def)

text \<open>
  C4. The claim: create, unlink and evict preserve that bit \<open>i\<close> of
  \<^verbatim>\<open>free_inodes\<close> is set exactly when the slot of inode number \<open>i + 1\<close> holds a
  live record, and the bit create sets indexes the slot of the record it
  writes. The code, on \<open>disk_c4\<close>, where the invariant holds: create for the
  name \<open>b\<close> returns 0, sets bit 2 and writes its record into slot 1, over the
  record of inode 2; slot 2 stays zero-filled and the invariant is lost. Nor is
  the invariant kept when the bits are numbered like the inodes: read that
  way it holds on \<open>disk_ab\<close>, and unlink of \<open>a\<close> (inode 2, data block 3) clears
  bit 3, the bit of inode 3, whose record stays in place.
\<close>

theorem operations_break_bitmap_table_inv:
  "(\<exists>s t. bread_sb ref_layout disk_c4 = Buf s \<and> bread_istore ref_layout disk_c4 = Buf t
       \<and> bitmap_table_inv ref_layout s t)
   \<and> (\<exists>d' s t. pantryfs_create ref_layout disk_c4 root_inode ''b'' 33188 1000 = Some (0, d')
       \<and> bread_sb ref_layout d' = Buf s \<and> bread_istore ref_layout d' = Buf t
       \<and> \<not> bitmap_table_inv ref_layout s t
       \<and> IS_SET (free_inodes s) 2 \<and> t ! 2 = zero_inode \<and> t ! 1 = file_record 4)
   \<and> (\<exists>s t. bread_sb ref_layout disk_ab = Buf s \<and> bread_istore ref_layout disk_ab = Buf t
       \<and> bitmap_number_inv ref_layout s t)
   \<and> (\<forall>f. \<exists>d' i' s t.
         pantryfs_unlink ref_layout f disk_ab root_inode ''a'' (file_inode 2) = Some (0, d', i')
       \<and> bread_sb ref_layout d' = Buf s \<and> bread_istore ref_layout d' = Buf t
       \<and> \<not> bitmap_number_inv ref_layout s t
       \<and> \<not> IS_SET (free_inodes s) 3 \<and> t ! 2 = file_record 4)"
proof (intro conjI)
  show "\<exists>s t. bread_sb ref_layout disk_c4 = Buf s \<and> bread_istore ref_layout disk_c4 = Buf t
       \<and> bitmap_table_inv ref_layout s t"
    unfolding disk_c4_def
    using bitmap_table_inv_disk_c4 by (simp add: bread_sb_mk_disk bread_istore_mk_disk)
next
  show "\<exists>d' s t. pantryfs_create ref_layout disk_c4 root_inode ''b'' 33188 1000 = Some (0, d')
       \<and> bread_sb ref_layout d' = Buf s \<and> bread_istore ref_layout d' = Buf t
       \<and> \<not> bitmap_table_inv ref_layout s t
       \<and> IS_SET (free_inodes s) 2 \<and> t ! 2 = zero_inode \<and> t ! 1 = file_record 4"
    unfolding disk_c4_def
    apply (simp add: pantryfs_create_def bread_sb_mk_disk ref_layout_sizes scan.simps IS_SET_def
        Let_def SETBIT_def)
    apply (simp add: create_unfold scan.simps)
    apply (simp add: bread_sb_def block_numbers ref_layout_sizes new_inode_record_def
        file_record_def S_IFREG_def)
    apply (simp add: bitmap_table_inv_def ref_layout_sizes list_all_upt_step IS_SET_def
        root_record_def file_record_def zero_inode_def zero_dentry_def)
    done
next
  show "\<exists>s t. bread_sb ref_layout disk_ab = Buf s \<and> bread_istore ref_layout disk_ab = Buf t
       \<and> bitmap_number_inv ref_layout s t"
    unfolding disk_ab_def
    apply (simp add: bread_sb_mk_disk bread_istore_mk_disk)
    apply (simp add: bitmap_number_inv_def ref_layout_sizes list_all_upt_step IS_SET_def
        root_record_def file_record_def zero_inode_def)
    done
next
  show "\<forall>f. \<exists>d' i' s t.
         pantryfs_unlink ref_layout f disk_ab root_inode ''a'' (file_inode 2) = Some (0, d', i')
       \<and> bread_sb ref_layout d' = Buf s \<and> bread_istore ref_layout d' = Buf t
       \<and> \<not> bitmap_number_inv ref_layout s t
       \<and> \<not> IS_SET (free_inodes s) 3 \<and> t ! 2 = file_record 4"
    unfolding disk_ab_def
    apply (simp add: unlink_unfold bread_istore_mk_disk bread_dir_mk_disk scan.simps)
    apply (simp add: unlink_unfold bread_sb_def bread_istore_def mk_disk_def block_numbers
        CLEARBIT_def IS_SET_def)
    apply (simp add: bitmap_number_inv_def ref_layout_sizes list_all_upt_step IS_SET_def
        root_record_def file_record_def zero_inode_def)
    done
qed

section \<open>Properties of directory iteration\<close>

lemmas iterate_unfold =
  pantryfs_iterate_def dir_emit_dots_def dir_emit_dot_def dir_emit_dotdot_def dir_emit_def
  PFS_inode_from_istore_def PFS_datablock_no_from_inode_def Let_def
  ref_layout_sizes root_inode_def root_record_def file_dentry_def zero_dentry_def

text \<open>
  Every call that gets past the two dot entries and returns 0 leaves the cursor
  at the end position, whether or not the loop ran to its end.
\<close>

lemma iterate_done_position:
  "pantryfs_iterate L d dir ctx = Some (0, c) \<Longrightarrow>
   ctx_pos ctx \<le> int (PFS_MAX_CHILDREN L) + 2 \<Longrightarrow>
   fst (dir_emit_dots dir ctx) \<Longrightarrow>
   ctx_pos c = int (PFS_MAX_CHILDREN L) + 3"
  by (auto simp: pantryfs_iterate_def EIO_def
      split: prod.splits bool.splits bread.splits option.splits if_splits)

text \<open>
  C10. The claim: a caller that stops early can call again and receive the
  entries not yet emitted, and the cursor passes the maximum entry count only
  once all active entries have been emitted. The code, on \<open>disk_ab\<close> with a
  caller that accepts three entries: the first call emits \<^verbatim>\<open>.\<close>, \<^verbatim>\<open>..\<close> and
  \<open>a\<close>, the callback declines \<open>b\<close>, and the cursor is set to 19 all the same;
  the next call, with room for ten entries, returns at once and emits nothing,
  so \<open>b\<close> is never delivered.
\<close>

theorem iterate_early_stop_loses_entries:
  "\<exists>c1. pantryfs_iterate ref_layout disk_ab root_inode \<lparr>ctx_pos = 0, room = 3, emitted = []\<rparr>
            = Some (0, c1)
      \<and> emitted c1 = [(''.'', 1), (''..'', 1), (''a'', 2)]
      \<and> ctx_pos c1 = 19
      \<and> pantryfs_iterate ref_layout disk_ab root_inode (c1\<lparr>room := 10\<rparr>)
            = Some (0, c1\<lparr>room := 10\<rparr>)"
  unfolding disk_ab_def
  apply (simp add: iterate_unfold bread_istore_mk_disk bread_dir_mk_disk iterate_loop.simps)
  done

section \<open>Properties of write\<close>

lemma write_amount_clip:
  assumes "0 \<le> ppos" "ppos \<le> PFS_BLOCK_SIZE" "int len + PFS_BLOCK_SIZE < 2 ^ 64"
  shows "write_amount len ppos = min (int len) (PFS_BLOCK_SIZE - ppos)"
proof -
  have l: "u64 (int len) = int len" using assms by (intro u64_id) (auto simp: PFS_BLOCK_SIZE_def)
  have s: "u64 (int len + ppos) = int len + ppos" using assms by (intro u64_id) auto
  have b: "u64 (PFS_BLOCK_SIZE - ppos) = PFS_BLOCK_SIZE - ppos"
    using assms by (intro u64_id) (auto simp: PFS_BLOCK_SIZE_def)
  show ?thesis
    unfolding write_amount_def l s b by auto
qed

lemma bread_data_upd_same:
  "length bs = 4096 \<Longrightarrow> bread_data (d(n \<mapsto> DataBlk bs)) n = Buf bs"
  by (simp add: bread_data_def)

lemma write_block_result:
  assumes off: "0 \<le> off" "off \<le> PFS_BLOCK_SIZE" and len: "int len + PFS_BLOCK_SIZE < 2 ^ 64"
    and n: "n = min (int len) (PFS_BLOCK_SIZE - off)" and ub: "n \<le> int (length ubuf)"
  shows "write_block d ino dbn bytes ubuf len off
           = Some (n, off + n,
                   (if off + n > i_size ino then mark_inode_dirty (i_size_write ino (off + n)) else ino),
                   d(dbn \<mapsto> DataBlk (take (nat off) bytes @ take (nat n) ubuf
                                       @ drop (nat (off + n)) bytes)))"
proof -
  have amt: "write_amount len off = n"
    using write_amount_clip [OF off len] n by simp
  have n0: "0 \<le> n" "off + n \<le> PFS_BLOCK_SIZE"
    using off n by (auto simp: PFS_BLOCK_SIZE_def)
  have sn: "s64 n = n" "s64 (off + n) = off + n"
    using n0 off by (auto intro!: s64_id simp: PFS_BLOCK_SIZE_def)
  show ?thesis
    using off n0 ub by (simp add: write_block_def amt sn Let_def)
qed

lemma disk_a_istore:
  "bread_istore ref_layout disk_a = Buf (root_record # file_record 3 # replicate 44 zero_inode)"
  unfolding disk_a_def by (simp add: bread_istore_mk_disk)

lemma disk_a_file_block:
  "i_ino ino = 2 \<Longrightarrow>
   PFS_datablock_no_from_inode ref_layout (root_record # file_record 3 # replicate 44 zero_inode)
     ino = Some 3"
  by (simp add: PFS_datablock_no_from_inode_def PFS_inode_from_istore_def ref_layout_sizes
      file_record_def)

lemma disk_a_root_block:
  "i_ino ino = 1 \<Longrightarrow>
   PFS_datablock_no_from_inode ref_layout (root_record # file_record 3 # replicate 44 zero_inode)
     ino = Some 2"
  by (simp add: PFS_datablock_no_from_inode_def PFS_inode_from_istore_def ref_layout_sizes
      root_record_def)

lemma disk_a_dir:
  "bread_dir ref_layout disk_a 2 = Buf (file_dentry ''a'' 2 # replicate 15 zero_dentry)"
  unfolding disk_a_def by (simp add: bread_dir_mk_disk)

lemma disk_a_data: "bread_data disk_a 3 = Buf (replicate 4096 0)"
  unfolding disk_a_def by (rule bread_data_mk_disk) simp

text \<open>
  C7, as the claim states it: a write that extends the file updates and
  persists the size field of the inode record. Ten bytes written at offset 0
  of the empty file of inode 2 make the in-memory size 10, and the record of
  inode 2 in the inode store keeps its size 0.
\<close>

theorem write_persists_size_counterexample:
  "\<exists>ino' d' t. pantryfs_write ref_layout disk_a (file_inode 2) False (replicate 10 7) 10 0
                   = Some (10, 10, ino', d')
      \<and> i_size (file_inode 2) = 0 \<and> i_size ino' = 10
      \<and> bread_istore ref_layout d' = Buf t \<and> file_size (t ! 1) \<noteq> 10"
proof -
  define d' where "d' = disk_a(3 \<mapsto> DataBlk (take (nat 0) (replicate 4096 0)
      @ take (nat 10) (replicate 10 7) @ drop (nat (0 + 10)) (replicate 4096 0)))"
  have db: "PFS_datablock_no_from_inode ref_layout
              (root_record # file_record 3 # replicate 44 zero_inode) (file_inode 2) = Some 3"
    using disk_a_file_block [of "file_inode 2"] by (simp add: file_inode_def)
  have h: "(0::int) \<le> 0" "(0::int) \<le> PFS_BLOCK_SIZE" "int 10 + PFS_BLOCK_SIZE < 2 ^ 64"
    "(10::int) = min (int 10) (PFS_BLOCK_SIZE - 0)"
    "(10::int) \<le> int (length (replicate 10 (7::8 word)))"
    by (simp_all add: PFS_BLOCK_SIZE_def)
  have wb: "write_block disk_a (file_inode 2) 3 (replicate 4096 0) (replicate 10 7) 10 0
              = Some (10, 0 + 10,
                      (if 0 + 10 > i_size (file_inode 2)
                       then mark_inode_dirty (i_size_write (file_inode 2) (0 + 10))
                       else file_inode 2), d')"
    unfolding d'_def by (rule write_block_result [OF h])
  have run: "pantryfs_write ref_layout disk_a (file_inode 2) False (replicate 10 7) 10 0
               = Some (10, 10, (file_inode 2)\<lparr>i_size := 10, i_dirty := True\<rparr>, d')"
    by (simp add: pantryfs_write_def disk_a_istore db disk_a_data Let_def wb)
       (simp add: file_inode_def mark_inode_dirty_def i_size_write_def)
  have ist: "bread_istore ref_layout d' = Buf (root_record # file_record 3 # replicate 44 zero_inode)"
    unfolding d'_def using disk_a_istore by (simp add: bread_istore_upd_other)
  show ?thesis
    using run ist by (simp add: file_inode_def file_record_def)
qed

text \<open>
  C7, amended. \<^verbatim>\<open>pantryfs_write\<close> returns \<^verbatim>\<open>-EINVAL\<close> when the offset exceeds
  the file's size. Otherwise, for a file of at most one block whose inode store
  and data block can be read and whose user buffer holds the bytes: the
  offset is first set to the size in append mode; \<open>min len (4096 - offset)\<close>
  bytes are copied into the block at the offset, the count is returned and the
  offset advanced by it, never past the block size; and when the new offset
  exceeds the size, the in-memory inode gets the new size and is marked dirty.
  Write itself leaves the inode store as it was: the size field of the on-disk
  record is written when the host runs \<^verbatim>\<open>pantryfs_write_inode\<close> on the inode.
\<close>

theorem pantryfs_write_contract:
  "(i_size ino < ppos \<longrightarrow>
      pantryfs_write L d ino isappend ubuf len ppos = Some (- EINVAL, ppos, ino, d))
   \<and> (0 \<le> ppos \<and> ppos \<le> i_size ino \<and> i_size ino \<le> PFS_BLOCK_SIZE
        \<and> int len + PFS_BLOCK_SIZE < 2 ^ 64
        \<and> bread_istore L d = Buf istore
        \<and> PFS_datablock_no_from_inode L istore ino = Some dbn
        \<and> bread_data d dbn = Buf bytes
        \<and> off = (if isappend then i_size ino else ppos)
        \<and> n = min (int len) (PFS_BLOCK_SIZE - off)
        \<and> n \<le> int (length ubuf) \<longrightarrow>
        (\<exists>ino' d'. pantryfs_write L d ino isappend ubuf len ppos = Some (n, off + n, ino', d')
           \<and> off + n \<le> PFS_BLOCK_SIZE
           \<and> bread_data d' dbn
                = Buf (take (nat off) bytes @ take (nat n) ubuf @ drop (nat (off + n)) bytes)
           \<and> ino' = (if i_size ino < off + n then ino\<lparr>i_size := off + n, i_dirty := True\<rparr>
                      else ino)
           \<and> bread_istore L d' = Buf istore
           \<and> (\<exists>d'' t k. pantryfs_write_inode L d' ino' = Some (0, d'')
                 \<and> bread_istore L d'' = Buf t
                 \<and> PFS_inode_from_istore L (i_ino ino') = Some k
                 \<and> file_size (t ! k) = i_size ino')))"
proof (intro conjI impI)
  assume "i_size ino < ppos"
  then show "pantryfs_write L d ino isappend ubuf len ppos = Some (- EINVAL, ppos, ino, d)"
    by (simp add: pantryfs_write_def)
next
  assume h: "0 \<le> ppos \<and> ppos \<le> i_size ino \<and> i_size ino \<le> PFS_BLOCK_SIZE
        \<and> int len + PFS_BLOCK_SIZE < 2 ^ 64
        \<and> bread_istore L d = Buf istore
        \<and> PFS_datablock_no_from_inode L istore ino = Some dbn
        \<and> bread_data d dbn = Buf bytes
        \<and> off = (if isappend then i_size ino else ppos)
        \<and> n = min (int len) (PFS_BLOCK_SIZE - off)
        \<and> n \<le> int (length ubuf)"
  define ino' where
    "ino' = (if i_size ino < off + n then ino\<lparr>i_size := off + n, i_dirty := True\<rparr> else ino)"
  define bytes' where
    "bytes' = take (nat off) bytes @ take (nat n) ubuf @ drop (nat (off + n)) bytes"
  define d' where "d' = d(dbn \<mapsto> DataBlk bytes')"
  from h have hp: "0 \<le> ppos" "ppos \<le> i_size ino" "i_size ino \<le> PFS_BLOCK_SIZE"
    and len: "int len + PFS_BLOCK_SIZE < 2 ^ 64"
    and pre: "bread_istore L d = Buf istore"
      "PFS_datablock_no_from_inode L istore ino = Some dbn" "bread_data d dbn = Buf bytes"
    and offd: "off = (if isappend then i_size ino else ppos)"
    and nn: "n = min (int len) (PFS_BLOCK_SIZE - off)"
    and ub: "n \<le> int (length ubuf)"
    by blast+
  have offeq: "(if isappend then i_size ino else ppos) = off" using offd by simp
  have off: "0 \<le> off" "off \<le> PFS_BLOCK_SIZE" using hp offd by auto
  have n0: "0 \<le> n" "off + n \<le> PFS_BLOCK_SIZE"
    using off nn by (auto simp: PFS_BLOCK_SIZE_def)
  have wb0: "write_block d ino dbn bytes ubuf len off
           = Some (n, off + n,
                   (if off + n > i_size ino then mark_inode_dirty (i_size_write ino (off + n)) else ino),
                   d(dbn \<mapsto> DataBlk (take (nat off) bytes @ take (nat n) ubuf
                                       @ drop (nat (off + n)) bytes)))"
    by (rule write_block_result [OF off len nn ub])
  have wb: "write_block d ino dbn bytes ubuf len off = Some (n, off + n, ino', d')"
    unfolding wb0 by (simp add: ino'_def d'_def bytes'_def mark_inode_dirty_def i_size_write_def)
  have nlt: "\<not> i_size ino < ppos" using hp by simp
  have run: "pantryfs_write L d ino isappend ubuf len ppos = Some (n, off + n, ino', d')"
    by (simp add: pantryfs_write_def Let_def offeq pre nlt wb)
  have lb: "length bytes = 4096" using pre by (auto dest: bread_data_BufD)
  have lb': "length bytes' = 4096"
    using lb off n0 ub by (auto simp: bytes'_def PFS_BLOCK_SIZE_def min_def)
  have bd: "bread_data d' dbn = Buf bytes'"
    unfolding d'_def using lb' by (rule bread_data_upd_same)
  have "dbn \<noteq> 1" using pre by (auto dest!: bread_data_BufD bread_istore_BufD)
  then have ist: "bread_istore L d' = Buf istore"
    using pre by (simp add: d'_def bread_istore_upd_other)
  obtain k where k: "PFS_inode_from_istore L (i_ino ino) = Some k"
    using pre by (auto simp: PFS_datablock_no_from_inode_def split: option.splits)
  have ii: "i_ino ino' = i_ino ino" by (simp add: ino'_def)
  have kl: "k < length istore" "length istore = PFS_MAX_INODES L"
    using k pre by (auto simp: PFS_inode_from_istore_def split: if_splits dest: bread_istore_BufD)
  define t where "t = istore[k := (istore ! k)\<lparr>mode := i_mode ino', uid := i_uid ino',
      gid := i_gid ino', nlink := i_nlink ino', i_atime := v_atime ino', i_mtime := v_mtime ino',
      i_ctime := v_ctime ino', file_size := i_size ino'\<rparr>]"
  have wi: "pantryfs_write_inode L d' ino'
              = Some (0, d'(PANTRYFS_INODE_STORE_DATABLOCK_NUMBER \<mapsto> IStoreBlk t))"
    using ist k ii by (simp add: pantryfs_write_inode_def t_def)
  have it: "bread_istore L (d'(PANTRYFS_INODE_STORE_DATABLOCK_NUMBER \<mapsto> IStoreBlk t)) = Buf t"
    unfolding block_numbers by (rule bread_istore_upd_same) (simp add: t_def kl)
  have fs: "file_size (t ! k) = i_size ino'"
    using kl by (simp add: t_def)
  have wbk: "\<exists>d'' t k. pantryfs_write_inode L d' ino' = Some (0, d'')
                 \<and> bread_istore L d'' = Buf t
                 \<and> PFS_inode_from_istore L (i_ino ino') = Some k
                 \<and> file_size (t ! k) = i_size ino'"
    using wi it fs k ii by auto
  show "\<exists>ino' d'. pantryfs_write L d ino isappend ubuf len ppos = Some (n, off + n, ino', d')
           \<and> off + n \<le> PFS_BLOCK_SIZE
           \<and> bread_data d' dbn
                = Buf (take (nat off) bytes @ take (nat n) ubuf @ drop (nat (off + n)) bytes)
           \<and> ino' = (if i_size ino < off + n then ino\<lparr>i_size := off + n, i_dirty := True\<rparr>
                      else ino)
           \<and> bread_istore L d' = Buf istore
           \<and> (\<exists>d'' t k. pantryfs_write_inode L d' ino' = Some (0, d'')
                 \<and> bread_istore L d'' = Buf t
                 \<and> PFS_inode_from_istore L (i_ino ino') = Some k
                 \<and> file_size (t ! k) = i_size ino')"
    using run n0(2) bd ist wbk ino'_def unfolding bytes'_def by blast
qed

theorem pantryfs_write_contract_witness:
  "pantryfs_write ref_layout disk_a (file_inode 2) False (replicate 10 7) 10 5
     = Some (- 22, 5, file_inode 2, disk_a)
   \<and> (\<exists>ino' d'. pantryfs_write ref_layout disk_a ((file_inode 2)\<lparr>i_size := 4090\<rparr>) True
                    (replicate 10 7) 10 0 = Some (6, 4096, ino', d')
         \<and> i_size ino' = 4096 \<and> i_dirty ino'
         \<and> bread_istore ref_layout d' = Buf (root_record # file_record 3 # replicate 44 zero_inode)
         \<and> (\<exists>d'' t. pantryfs_write_inode ref_layout d' ino' = Some (0, d'')
               \<and> bread_istore ref_layout d'' = Buf t \<and> file_size (t ! 1) = 4096))"
proof -
  have a: "pantryfs_write ref_layout disk_a (file_inode 2) False (replicate 10 7) 10 5
             = Some (- 22, 5, file_inode 2, disk_a)"
    using pantryfs_write_contract [where ino = "file_inode 2" and ppos = 5 and L = ref_layout
        and d = disk_a and isappend = False and ubuf = "replicate 10 7" and len = 10]
    by (simp add: file_inode_def EINVAL_def)
  have db: "PFS_datablock_no_from_inode ref_layout
              (root_record # file_record 3 # replicate 44 zero_inode)
              ((file_inode 2)\<lparr>i_size := 4090\<rparr>) = Some 3"
    using disk_a_file_block [of "(file_inode 2)\<lparr>i_size := 4090\<rparr>"] by (simp add: file_inode_def)
  have b: "\<exists>ino' d'. pantryfs_write ref_layout disk_a ((file_inode 2)\<lparr>i_size := 4090\<rparr>) True
                    (replicate 10 7) 10 0 = Some (6, 4096, ino', d')
         \<and> i_size ino' = 4096 \<and> i_dirty ino'
         \<and> bread_istore ref_layout d' = Buf (root_record # file_record 3 # replicate 44 zero_inode)
         \<and> (\<exists>d'' t. pantryfs_write_inode ref_layout d' ino' = Some (0, d'')
               \<and> bread_istore ref_layout d'' = Buf t \<and> file_size (t ! 1) = 4096)"
    using pantryfs_write_contract [where ino = "(file_inode 2)\<lparr>i_size := 4090\<rparr>" and ppos = 0
        and L = ref_layout and d = disk_a and isappend = True and ubuf = "replicate 10 7"
        and len = 10 and istore = "root_record # file_record 3 # replicate 44 zero_inode"
        and dbn = 3 and bytes = "replicate 4096 0" and off = 4090 and n = 6]
      disk_a_istore db disk_a_data
    apply (simp add: PFS_BLOCK_SIZE_def PFS_inode_from_istore_def ref_layout_sizes file_inode_def)
    apply (elim exE conjE)
    apply (intro exI conjI)
        apply assumption
       apply simp_all
    done
  show ?thesis using a b by blast
qed

section \<open>Properties of the inode cache, lookup and mount\<close>

lemma scan_noneD:
  "scan P n i = n \<Longrightarrow> i \<le> j \<Longrightarrow> j < n \<Longrightarrow> \<not> P j"
proof (induction P n i rule: scan.induct)
  case (1 P n i)
  have lt: "i < n" using "1.prems" by simp
  have np: "\<not> P i"
    using "1.prems"(1) lt by (subst (asm) scan.simps) (auto split: if_splits)
  have rec: "scan P n (Suc i) = n"
    using "1.prems"(1) lt np by (subst (asm) scan.simps) simp
  show ?case
  proof (cases "j = i")
    case True
    then show ?thesis using np by simp
  next
    case False
    then have "Suc i \<le> j" using "1.prems" by simp
    then show ?thesis using "1.IH" [OF lt np rec] "1.prems" by simp
  qed
qed

lemma find_inode_fast_None:
  "(\<And>a. a < length c \<Longrightarrow> i_ino (c ! a) \<noteq> ino) \<Longrightarrow> find_inode_fast c ino = None"
  by (simp add: find_inode_fast_def scan_none)

lemma find_inode_fast_NoneD:
  assumes "find_inode_fast c ino = None" "a < length c"
  shows "i_ino (c ! a) \<noteq> ino"
proof -
  have "scan (\<lambda>a. i_ino (c ! a) = ino) (length c) 0 = length c"
    using assms(1) by (simp add: find_inode_fast_def Let_def split: if_splits)
  from scan_noneD [OF this _ assms(2)] show ?thesis by simp
qed

lemma find_inode_fast_snoc:
  assumes "find_inode_fast c ino = None" "i_ino x \<noteq> ino"
  shows "find_inode_fast (c @ [x]) ino = None"
proof (rule find_inode_fast_None)
  fix a assume "a < length (c @ [x])"
  then show "i_ino ((c @ [x]) ! a) \<noteq> ino"
    using assms find_inode_fast_NoneD [of c ino a] by (cases "a < length c") (auto simp: nth_append)
qed

lemma i_ino_fill_inode [simp]: "i_ino (fill_inode x n r) = n"
  by (simp add: fill_inode_def)

lemma pfs_inode_fresh:
  assumes "find_inode_fast c 0 = None"
  shows "pfs_inode False c n (Some r) = Some (Some (length c), c @ [fill_inode (alloc_inode 0) n r])"
  using assms by (simp add: pfs_inode_def iget_locked_def alloc_inode_def)

lemma pfs_inode_cached:
  assumes "find_inode_fast c 0 = Some a" "\<not> i_new (c ! a)"
  shows "pfs_inode oom c n ptr = Some (Some a, c)"
  using assms by (simp add: pfs_inode_def iget_locked_def)

text \<open>
  C6, amended. \<^verbatim>\<open>pfs_inode\<close> asks the cache for key 0 whatever inode number it
  is given: when the cache holds an unlocked inode numbered 0, that inode is
  returned for every number. But \<^verbatim>\<open>pfs_inode\<close> overwrites the number of the
  inode it obtained, and the cache finds an inode by its number. So mount, on
  an empty cache, leaves the root inode with number 1 at address 0 and no inode
  numbered 0; and on a cache without an inode numbered 0, lookup of a name whose
  entry is found and whose inode number lies inside the inode store binds the
  dentry to a new inode, at a new address, filled from the record of that
  number, and again leaves no inode numbered 0 in the cache.
\<close>

theorem lookup_materializes_fresh_inode:
  "(find_inode_fast c 0 = Some a \<and> \<not> i_new (c ! a) \<longrightarrow>
      pfs_inode oom c ino ptr = Some (Some a, c))
   \<and> (pantryfs_fill_super L False d [] = Some (0, root, c0) \<longrightarrow>
        root = Some 0 \<and> length c0 = 1 \<and> i_ino (c0 ! 0) = PANTRYFS_ROOT_INODE_NUMBER
        \<and> find_inode_fast c0 0 = None)
   \<and> (find_inode_fast c 0 = None
        \<and> length name \<le> PANTRYFS_MAX_FILENAME_LENGTH L
        \<and> bread_istore L d = Buf istore
        \<and> PFS_datablock_no_from_inode L istore parent = Some pdb
        \<and> bread_dir L d pdb = Buf es
        \<and> scan (\<lambda>i. active (es ! i) \<noteq> 0
                  \<and> take (PANTRYFS_FILENAME_BUF_SIZE L) (filename (es ! i))
                      = take (PANTRYFS_FILENAME_BUF_SIZE L) name)
             (PFS_MAX_CHILDREN L) 0 = i
        \<and> i < PFS_MAX_CHILDREN L
        \<and> PFS_inode_from_istore L (inode_no (es ! i)) = Some k \<longrightarrow>
        (\<exists>new. pantryfs_lookup L False d c parent name = Some (D_add (length c), c @ [new])
           \<and> new = fill_inode (alloc_inode 0) (inode_no (es ! i)) (istore ! k)
           \<and> i_ino new = inode_no (es ! i) \<and> i_nlink new = nlink (istore ! k)
           \<and> v_mtime new = i_mtime (istore ! k)
           \<and> find_inode_fast (c @ [new]) 0 = None))"
proof -
  have key0: "find_inode_fast c 0 = Some a \<and> \<not> i_new (c ! a) \<longrightarrow>
      pfs_inode oom c ino ptr = Some (Some a, c)"
    by (simp add: pfs_inode_cached)
  have mount: "pantryfs_fill_super L False d [] = Some (0, root, c0) \<longrightarrow>
        root = Some 0 \<and> length c0 = 1 \<and> i_ino (c0 ! 0) = PANTRYFS_ROOT_INODE_NUMBER
        \<and> find_inode_fast c0 0 = None"
  proof (rule impI)
  assume m: "pantryfs_fill_super L False d [] = Some (0, root, c0)"
  have e: "find_inode_fast [] 0 = None" by (rule find_inode_fast_None) simp
  from m obtain r where
    "pfs_inode False [] PANTRYFS_ROOT_INODE_NUMBER (Some r) = Some (root, c0)"
    by (auto simp: pantryfs_fill_super_def EIO_def EINVAL_def pfs_inode_def iget_locked_def e
        alloc_inode_def split: bread.splits if_splits option.splits prod.splits)
  then have rc: "root = Some 0" "c0 = [fill_inode (alloc_inode 0) PANTRYFS_ROOT_INODE_NUMBER r]"
    using pfs_inode_fresh [OF e] by auto
  have "find_inode_fast c0 0 = None"
    unfolding rc using find_inode_fast_snoc [OF e, of "fill_inode (alloc_inode 0) PANTRYFS_ROOT_INODE_NUMBER r"]
    by (simp add: PANTRYFS_ROOT_INODE_NUMBER_def)
  then show "root = Some 0 \<and> length c0 = 1 \<and> i_ino (c0 ! 0) = PANTRYFS_ROOT_INODE_NUMBER
        \<and> find_inode_fast c0 0 = None"
    using rc by simp
  qed
  have lookup: "find_inode_fast c 0 = None
        \<and> length name \<le> PANTRYFS_MAX_FILENAME_LENGTH L
        \<and> bread_istore L d = Buf istore
        \<and> PFS_datablock_no_from_inode L istore parent = Some pdb
        \<and> bread_dir L d pdb = Buf es
        \<and> scan (\<lambda>i. active (es ! i) \<noteq> 0
                  \<and> take (PANTRYFS_FILENAME_BUF_SIZE L) (filename (es ! i))
                      = take (PANTRYFS_FILENAME_BUF_SIZE L) name)
             (PFS_MAX_CHILDREN L) 0 = i
        \<and> i < PFS_MAX_CHILDREN L
        \<and> PFS_inode_from_istore L (inode_no (es ! i)) = Some k \<longrightarrow>
        (\<exists>new. pantryfs_lookup L False d c parent name = Some (D_add (length c), c @ [new])
           \<and> new = fill_inode (alloc_inode 0) (inode_no (es ! i)) (istore ! k)
           \<and> i_ino new = inode_no (es ! i) \<and> i_nlink new = nlink (istore ! k)
           \<and> v_mtime new = i_mtime (istore ! k)
           \<and> find_inode_fast (c @ [new]) 0 = None)"
  proof (rule impI)
  assume h: "find_inode_fast c 0 = None
        \<and> length name \<le> PANTRYFS_MAX_FILENAME_LENGTH L
        \<and> bread_istore L d = Buf istore
        \<and> PFS_datablock_no_from_inode L istore parent = Some pdb
        \<and> bread_dir L d pdb = Buf es
        \<and> scan (\<lambda>i. active (es ! i) \<noteq> 0
                  \<and> take (PANTRYFS_FILENAME_BUF_SIZE L) (filename (es ! i))
                      = take (PANTRYFS_FILENAME_BUF_SIZE L) name)
             (PFS_MAX_CHILDREN L) 0 = i
        \<and> i < PFS_MAX_CHILDREN L
        \<and> PFS_inode_from_istore L (inode_no (es ! i)) = Some k"
  define new where "new = fill_inode (alloc_inode 0) (inode_no (es ! i)) (istore ! k)"
  from h have nz: "find_inode_fast c 0 = None"
    and len: "length name \<le> PANTRYFS_MAX_FILENAME_LENGTH L"
    and pre: "bread_istore L d = Buf istore"
      "PFS_datablock_no_from_inode L istore parent = Some pdb" "bread_dir L d pdb = Buf es"
    and sc: "scan (\<lambda>i. active (es ! i) \<noteq> 0
                  \<and> take (PANTRYFS_FILENAME_BUF_SIZE L) (filename (es ! i))
                      = take (PANTRYFS_FILENAME_BUF_SIZE L) name)
             (PFS_MAX_CHILDREN L) 0 = i"
    and lt: "i < PFS_MAX_CHILDREN L"
    and k: "PFS_inode_from_istore L (inode_no (es ! i)) = Some k"
    by blast+
  have pf: "pfs_inode False c (inode_no (es ! i)) (Some (istore ! k))
              = Some (Some (length c), c @ [new])"
    unfolding new_def by (rule pfs_inode_fresh [OF nz])
  have ne: "i \<noteq> PFS_MAX_CHILDREN L" using lt by simp
  have nlen: "\<not> PANTRYFS_MAX_FILENAME_LENGTH L < length name" using len by simp
  have run: "pantryfs_lookup L False d c parent name = Some (D_add (length c), c @ [new])"
    using sc by (simp add: pantryfs_lookup_def Let_def nlen pre ne k pf)
  have "inode_no (es ! i) \<noteq> 0"
    using k by (auto simp: PFS_inode_from_istore_def split: if_splits)
  then have inv: "find_inode_fast (c @ [new]) 0 = None"
    using find_inode_fast_snoc [OF nz, of new] by (simp add: new_def)
  have fields: "i_ino new = inode_no (es ! i)" "i_nlink new = nlink (istore ! k)"
    "v_mtime new = i_mtime (istore ! k)"
    by (simp_all add: new_def fill_inode_def)
  show "\<exists>new. pantryfs_lookup L False d c parent name = Some (D_add (length c), c @ [new])
           \<and> new = fill_inode (alloc_inode 0) (inode_no (es ! i)) (istore ! k)
           \<and> i_ino new = inode_no (es ! i) \<and> i_nlink new = nlink (istore ! k)
           \<and> v_mtime new = i_mtime (istore ! k)
           \<and> find_inode_fast (c @ [new]) 0 = None"
    using run inv fields new_def by blast
  qed
  show ?thesis using key0 mount lookup by blast
qed


lemma find_inode_fast_empty: "find_inode_fast [] ino = None"
  by (rule find_inode_fast_None) simp

lemma fill_super_disk_a:
  "pantryfs_fill_super ref_layout False disk_a []
     = Some (0, Some 0, [fill_inode (alloc_inode 0) 1 root_record])"
  unfolding disk_a_def
  by (simp add: pantryfs_fill_super_def bread_sb_mk_disk bread_istore_mk_disk
      PFS_inode_from_istore_def ref_layout_sizes PANTRYFS_ROOT_INODE_NUMBER_def
      pfs_inode_fresh find_inode_fast_empty)

lemma disk_a_scan_a:
  "scan (\<lambda>i. active ((file_dentry ''a'' 2 # replicate 15 zero_dentry) ! i) \<noteq> 0
            \<and> take (PANTRYFS_FILENAME_BUF_SIZE ref_layout)
                 (filename ((file_dentry ''a'' 2 # replicate 15 zero_dentry) ! i))
                = take (PANTRYFS_FILENAME_BUF_SIZE ref_layout) ''a'')
     (PFS_MAX_CHILDREN ref_layout) 0 = 0"
  by (simp add: scan.simps ref_layout_sizes file_dentry_def)

text \<open>
  C6, as the claim states it: after mount, every lookup of an existing name
  returns the inode cached at mount. On \<open>disk_a\<close>, mount puts the root inode at
  address 0; lookup of \<open>a\<close> then binds the dentry to the inode at address 1,
  which has number 2 and the mode and link count of the record of inode 2.
\<close>

theorem lookup_returns_root_counterexample:
  "\<exists>c0 c1. pantryfs_fill_super ref_layout False disk_a [] = Some (0, Some 0, c0)
      \<and> pantryfs_lookup ref_layout False disk_a c0 (c0 ! 0) ''a'' = Some (D_add 1, c1)
      \<and> D_add 1 \<noteq> D_add 0
      \<and> i_ino (c1 ! 0) = 1 \<and> i_ino (c1 ! 1) = 2 \<and> i_mode (c1 ! 1) = 33206
      \<and> i_nlink (c1 ! 1) = 1 \<and> i_fop (c1 ! 1) = pantryfs_file_ops"
proof -
  define c0 where "c0 = [fill_inode (alloc_inode 0) 1 root_record]"
  define new where "new = fill_inode (alloc_inode 0) 2 (file_record 3)"
  have nz: "find_inode_fast c0 0 = None"
    unfolding c0_def by (rule find_inode_fast_None) simp
  have rb: "PFS_datablock_no_from_inode ref_layout
              (root_record # file_record 3 # replicate 44 zero_inode) (c0 ! 0) = Some 2"
    by (rule disk_a_root_block) (simp add: c0_def)
  have pf: "pfs_inode False c0 2 (Some (file_record 3)) = Some (Some (length c0), c0 @ [new])"
    unfolding new_def by (rule pfs_inode_fresh [OF nz])
  have run: "pantryfs_lookup ref_layout False disk_a c0 (c0 ! 0) ''a'' = Some (D_add 1, c0 @ [new])"
    using disk_a_scan_a pf
    by (simp add: pantryfs_lookup_def Let_def disk_a_istore rb disk_a_dir ref_layout_sizes
        PFS_inode_from_istore_def)
       (simp add: ref_layout_def file_dentry_def c0_def)
  show ?thesis
    using fill_super_disk_a run
    by (intro exI [of _ c0] exI [of _ "c0 @ [new]"])
       (simp add: c0_def new_def fill_inode_def alloc_inode_def file_record_def S_IFDIR_def
          PANTRYFS_ROOT_INODE_NUMBER_def)
qed


theorem lookup_materializes_fresh_inode_witness:
  "pfs_inode False [file_inode 0] 5 None = Some (Some 0, [file_inode 0])
   \<and> (\<exists>c0. pantryfs_fill_super ref_layout False disk_a [] = Some (0, Some 0, c0)
         \<and> length c0 = 1 \<and> i_ino (c0 ! 0) = 1 \<and> find_inode_fast c0 0 = None
         \<and> (\<exists>new. pantryfs_lookup ref_layout False disk_a c0 (c0 ! 0) ''a''
                      = Some (D_add 1, c0 @ [new])
               \<and> i_ino new = 2 \<and> i_nlink new = 1 \<and> v_mtime new = 1000
               \<and> find_inode_fast (c0 @ [new]) 0 = None))"
proof -
  define c0 where "c0 = [fill_inode (alloc_inode 0) 1 root_record]"
  have f0: "find_inode_fast [file_inode 0] 0 = Some 0"
    by (simp add: find_inode_fast_def scan.simps file_inode_def)
  have a: "pfs_inode False [file_inode 0] 5 None = Some (Some 0, [file_inode 0])"
    using lookup_materializes_fresh_inode [where c = "[file_inode 0]" and a = 0 and oom = False
        and ino = 5 and ptr = None] f0
    by (simp add: file_inode_def)
  have m: "pantryfs_fill_super ref_layout False disk_a [] = Some (0, Some 0, c0)"
    unfolding c0_def by (rule fill_super_disk_a)
  have b: "length c0 = 1 \<and> i_ino (c0 ! 0) = 1 \<and> find_inode_fast c0 0 = None"
    using lookup_materializes_fresh_inode [where L = ref_layout and d = disk_a
        and root = "Some 0" and ?c0.0 = c0] m
    by (simp add: PANTRYFS_ROOT_INODE_NUMBER_def)
  have rb: "PFS_datablock_no_from_inode ref_layout
              (root_record # file_record 3 # replicate 44 zero_inode) (c0 ! 0) = Some 2"
    by (rule disk_a_root_block) (simp add: c0_def)
  have k: "PFS_inode_from_istore ref_layout
             (inode_no ((file_dentry ''a'' 2 # replicate 15 zero_dentry) ! 0)) = Some 1"
    by (simp add: PFS_inode_from_istore_def ref_layout_sizes file_dentry_def)
  have c: "\<exists>new. pantryfs_lookup ref_layout False disk_a c0 (c0 ! 0) ''a''
                      = Some (D_add 1, c0 @ [new])
               \<and> i_ino new = 2 \<and> i_nlink new = 1 \<and> v_mtime new = 1000
               \<and> find_inode_fast (c0 @ [new]) 0 = None"
    using lookup_materializes_fresh_inode [where c = c0 and L = ref_layout and d = disk_a
        and name = "''a''" and parent = "c0 ! 0"
        and istore = "root_record # file_record 3 # replicate 44 zero_inode" and pdb = 2
        and es = "file_dentry ''a'' 2 # replicate 15 zero_dentry" and i = 0 and k = 1]
      b disk_a_istore rb disk_a_dir disk_a_scan_a k
    apply (simp add: ref_layout_sizes)
    apply (simp add: ref_layout_def file_dentry_def file_record_def c0_def)
    done
  show ?thesis using a m b c by blast
qed

end
